theory Spec2Isabelle
  imports Complex_Main "HOL-Library.Word"
begin

unbundle bit_operations_syntax

section \<open>Data model\<close>

subsection \<open>Error values (the errors file of the package)\<close>

text \<open>
  \<^verbatim>\<open>type ErrorCode string\<close> with its nine constants. The zero value of the type is the
  empty string, which is what \<^verbatim>\<open>&Error{StatusCode: statusCode}\<close> leaves in the field.
\<close>

type_synonym ErrorCode = string

abbreviation ErrUnauthorized :: ErrorCode where "ErrUnauthorized \<equiv> ''unauthorized''"
abbreviation ErrForbidden :: ErrorCode where "ErrForbidden \<equiv> ''forbidden''"
abbreviation ErrNotFound :: ErrorCode where "ErrNotFound \<equiv> ''not_found''"
abbreviation ErrBadRequest :: ErrorCode where "ErrBadRequest \<equiv> ''bad_request''"
abbreviation ErrQuotaExceeded :: ErrorCode where "ErrQuotaExceeded \<equiv> ''quota_exceeded''"
abbreviation ErrInternalServer :: ErrorCode where "ErrInternalServer \<equiv> ''internal_server''"
abbreviation ErrNetworkError :: ErrorCode where "ErrNetworkError \<equiv> ''network_error''"
abbreviation ErrValidation :: ErrorCode where "ErrValidation \<equiv> ''validation_error''"
abbreviation ErrTimeout :: ErrorCode where "ErrTimeout \<equiv> ''timeout''"

text \<open>
  Errors produced outside the package (by \<^verbatim>\<open>encoding/json\<close>, \<^verbatim>\<open>net/url\<close>, \<^verbatim>\<open>net/http\<close>,
  \<^verbatim>\<open>io\<close> and \<^verbatim>\<open>context\<close>) are opaque here; only their identity matters, since the package
  stores them in \<^verbatim>\<open>Cause\<close> and never inspects them.
\<close>

datatype go_error = context_Canceled | context_DeadlineExceeded | errorString string

text \<open>
  A value decoded by \<^verbatim>\<open>encoding/json\<close> into \<^verbatim>\<open>interface{}\<close>: nil, bool, float64, string,
  slice or map. A finite float64 is a rational number, and the only arithmetic the package
  does on one is the conversion \<^verbatim>\<open>int(x)\<close>.
\<close>

datatype jvalue =
    JNil
  | JBool bool
  | JFloat64 rat
  | JString string
  | JSlice "jvalue list"
  | JMap "(string \<times> jvalue) list"

text \<open>\<^verbatim>\<open>map[string]interface{}\<close>; a nil map is \<open>None\<close>.\<close>

type_synonym details = "(string \<rightharpoonup> jvalue) option"

record Error =
  Code :: ErrorCode
  Message :: string
  StatusCode :: int
  Details :: details
  Cause :: "go_error option"

record QuotaError =
  Code :: ErrorCode
  Message :: string
  StatusCode :: int
  Plan :: string
  Current :: "64 word"
  Limit :: "64 word"
  QuotaType :: string

text \<open>
  A non-nil value of the interface type \<^verbatim>\<open>error\<close> as this package returns it: its dynamic
  type is \<^verbatim>\<open>*Error\<close> or \<^verbatim>\<open>*QuotaError\<close>. A nil \<^verbatim>\<open>error\<close> is \<open>None\<close> of
  \<open>error option\<close>.
\<close>

datatype error = PtrError Error | PtrQuotaError QuotaError

subsection \<open>The loose error object of \<^verbatim>\<open>parseHTTPError\<close>\<close>

record errResp =
  Message :: string
  Error :: string
  Code :: string
  Details :: details

section \<open>The error classifier\<close>

text \<open>The comma-ok type assertions \<^verbatim>\<open>m[k].(string)\<close> and \<^verbatim>\<open>m[k].(float64)\<close>.\<close>

fun assert_string :: "jvalue option \<Rightarrow> string option" where
  "assert_string (Some (JString s)) = Some s"
| "assert_string _ = None"

fun assert_float64 :: "jvalue option \<Rightarrow> rat option" where
  "assert_float64 (Some (JFloat64 x)) = Some x"
| "assert_float64 _ = None"

text \<open>
  \<^verbatim>\<open>int(x)\<close> on a float64, into Go's 64-bit \<^verbatim>\<open>int\<close>: the fraction is dropped (truncation
  toward zero). When the truncated value does not fit the 64 bits, Go leaves the result to
  the implementation; the value here is the one of the gc compiler on amd64, whose
  conversion instruction answers \<open>-2^63\<close> to every number out of range.
\<close>

definition int_of_float64 :: "rat \<Rightarrow> 64 word" where
  "int_of_float64 x =
     (let t = (if 0 \<le> x then floor x else ceiling x)
      in if - (2 ^ 63) \<le> t \<and> t < 2 ^ 63 then word_of_int t else word_of_int (- (2 ^ 63)))"

text \<open>\<^verbatim>\<open>fmt.Sprintf("%d", n)\<close>.\<close>

fun digits :: "nat \<Rightarrow> string" where
  "digits n =
     (if n < 10 then [''0123456789'' ! n]
      else digits (n div 10) @ [''0123456789'' ! (n mod 10)])"

definition Sprintf_d :: "int \<Rightarrow> string" where
  "Sprintf_d n = (if n < 0 then CHR ''-'' # digits (nat (- n)) else digits (nat n))"

text \<open>
  \<^verbatim>\<open>parseHTTPError\<close>, lines 199 to 241: the body is parsed, and either the quota error
  is built and returned (\<open>Inl\<close>) or the generic error goes on with its message and details
  (\<open>Inr\<close>). The first argument stands for \<^verbatim>\<open>json.Unmarshal(body, &errResp)\<close>: \<open>None\<close>
  when that call returns an error, the decoded object otherwise.
\<close>

definition parseErrorBody ::
  "(string \<Rightarrow> errResp option) \<Rightarrow> int \<Rightarrow> string \<Rightarrow> QuotaError + Error" where
  "parseErrorBody unmarshal statusCode body =
    (let e = \<lparr>Error.Code = '''', Message = '''', StatusCode = statusCode,
               Details = None, Cause = None\<rparr>
     in case unmarshal body of
          Some errResp \<Rightarrow>
            (let e1 =
               (if errResp.Message errResp \<noteq> ''''
                  then e\<lparr>Error.Message := errResp.Message errResp\<rparr>
                else if errResp.Error errResp \<noteq> ''''
                  then e\<lparr>Error.Message := errResp.Error errResp\<rparr>
                else e)
             in if errResp.Code errResp = ''QUOTA_EXCEEDED''
                   \<or> errResp.Code errResp = ''ASSET_QUOTA_EXCEEDED''
                   \<or> errResp.Code errResp = ''LAYOUT_QUOTA_EXCEEDED''
                then
                  (let qe = \<lparr>QuotaError.Code = ErrQuotaExceeded,
                             Message = Error.Message e1,
                             StatusCode = statusCode,
                             Plan = '''', Current = 0, Limit = 0, QuotaType = ''''\<rparr>
                   in Inl
                     (case errResp.Details errResp of
                        None \<Rightarrow> qe
                      | Some d \<Rightarrow>
                         (let qe1 = (case assert_string (d ''plan'') of
                                       Some plan \<Rightarrow> qe\<lparr>Plan := plan\<rparr> | None \<Rightarrow> qe);
                              qe2 = (case assert_float64 (d ''current'') of
                                       Some current \<Rightarrow> qe1\<lparr>Current := int_of_float64 current\<rparr>
                                     | None \<Rightarrow> qe1);
                              qe3 = (case assert_float64 (d ''limit'') of
                                       Some limit \<Rightarrow> qe2\<lparr>Limit := int_of_float64 limit\<rparr>
                                     | None \<Rightarrow> qe2)
                          in (case assert_string (d ''type'') of
                                Some typ \<Rightarrow> qe3\<lparr>QuotaType := typ\<rparr> | None \<Rightarrow> qe3))))
                else Inr (e1\<lparr>Error.Details := errResp.Details errResp\<rparr>))
        | None \<Rightarrow>
            (if length body > 0 then Inr (e\<lparr>Error.Message := body\<rparr>) else Inr e))"

text \<open>\<^verbatim>\<open>parseHTTPError\<close>, lines 243 to 275: the \<^verbatim>\<open>switch\<close> on the status code.\<close>

definition setErrorCode :: "int \<Rightarrow> Error \<Rightarrow> Error" where
  "setErrorCode statusCode e =
    (if statusCode = 401 then
       (let e1 = e\<lparr>Error.Code := ErrUnauthorized\<rparr>
        in if Error.Message e1 = '''' then e1\<lparr>Error.Message := ''unauthorized''\<rparr> else e1)
     else if statusCode = 403 then
       (let e1 = e\<lparr>Error.Code := ErrForbidden\<rparr>
        in if Error.Message e1 = '''' then e1\<lparr>Error.Message := ''forbidden''\<rparr> else e1)
     else if statusCode = 404 then
       (let e1 = e\<lparr>Error.Code := ErrNotFound\<rparr>
        in if Error.Message e1 = '''' then e1\<lparr>Error.Message := ''not found''\<rparr> else e1)
     else if statusCode = 400 then
       (let e1 = e\<lparr>Error.Code := ErrBadRequest\<rparr>
        in if Error.Message e1 = '''' then e1\<lparr>Error.Message := ''bad request''\<rparr> else e1)
     else if statusCode = 402 then
       (let e1 = e\<lparr>Error.Code := ErrQuotaExceeded\<rparr>
        in if Error.Message e1 = '''' then e1\<lparr>Error.Message := ''quota exceeded''\<rparr> else e1)
     else
       (let e1 = e\<lparr>Error.Code := ErrInternalServer\<rparr>
        in if Error.Message e1 = ''''
           then e1\<lparr>Error.Message := ''server error: '' @ Sprintf_d statusCode\<rparr>
           else e1))"

text \<open>\<^verbatim>\<open>parseHTTPError\<close>: the two parts in sequence.\<close>

definition parseHTTPError :: "(string \<Rightarrow> errResp option) \<Rightarrow> int \<Rightarrow> string \<Rightarrow> error" where
  "parseHTTPError unmarshal statusCode body =
    (case parseErrorBody unmarshal statusCode body of
       Inl qe \<Rightarrow> PtrQuotaError qe
     | Inr e \<Rightarrow> PtrError (setErrorCode statusCode e))"

section \<open>The transport\<close>

subsection \<open>State of the transport and of the world around it\<close>

text \<open>
  \<^verbatim>\<open>*http.Client\<close> is a handle: the package reads nothing from it and only calls
  \<^verbatim>\<open>Do\<close>. The field kept is the one the constructor of the package sets.
\<close>

record http_Client =
  Timeout :: "64 word"

text \<open>
  \<^verbatim>\<open>httpClient\<close>. \<^verbatim>\<open>maxRetries\<close> is a Go \<^verbatim>\<open>int\<close> and \<^verbatim>\<open>retryWait\<close> a
  \<^verbatim>\<open>time.Duration\<close> (an int64 of nanoseconds): 64-bit words, compared as signed numbers.
\<close>

record httpClient =
  client :: http_Client
  baseURL :: string
  token :: string
  adminToken :: string
  debug :: bool
  maxRetries :: "64 word"
  retryWait :: "64 word"

text \<open>\<^verbatim>\<open>strings.TrimSuffix\<close>.\<close>

definition TrimSuffix :: "string \<Rightarrow> string \<Rightarrow> string" where
  "TrimSuffix s suffix =
     (if length suffix \<le> length s \<and> drop (length s - length suffix) s = suffix
      then take (length s - length suffix) s else s)"

text \<open>\<^verbatim>\<open>time.Second\<close>, in nanoseconds.\<close>

definition time_Second :: "64 word" where
  "time_Second = 1000000000"

definition newHTTPClient :: "http_Client \<Rightarrow> string \<Rightarrow> httpClient" where
  "newHTTPClient cl url =
     \<lparr>client = cl, baseURL = TrimSuffix url ''/'', token = '''', adminToken = '''',
      debug = False, maxRetries = 3, retryWait = time_Second\<rparr>"

definition SetToken :: "httpClient \<Rightarrow> string \<Rightarrow> httpClient" where
  "SetToken c t = c\<lparr>token := t\<rparr>"

definition SetAdminToken :: "httpClient \<Rightarrow> string \<Rightarrow> httpClient" where
  "SetAdminToken c t = c\<lparr>adminToken := t\<rparr>"

text \<open>The request handed to \<^verbatim>\<open>c.client.Do\<close>.\<close>

record request =
  Method :: string
  URL :: string
  Body :: "string option"
  Header :: "string \<rightharpoonup> string"

text \<open>
  What \<^verbatim>\<open>c.client.Do(req)\<close> followed by \<^verbatim>\<open>io.ReadAll(resp.Body)\<close> can give: \<^verbatim>\<open>Do\<close>
  fails; \<^verbatim>\<open>Do\<close> gives a response with a status but reading its body fails; or a status
  and the bytes of the body.
\<close>

datatype net_result =
    DoFailed go_error
  | ReadFailed int go_error
  | Response int string

text \<open>
  The functions of the standard library that one attempt calls, as parameters: \<^verbatim>\<open>url.JoinPath\<close>,
  \<^verbatim>\<open>json.Marshal\<close> on the body, \<^verbatim>\<open>http.NewRequestWithContext\<close> (its error, if any, from
  method and URL), \<^verbatim>\<open>json.Unmarshal\<close> into the loose error object, and \<^verbatim>\<open>json.Unmarshal\<close>
  into the destination (its error, if any, and the destination as it leaves it).
\<close>

record ('b, 'r) stdlib =
  url_JoinPath :: "string \<Rightarrow> string \<Rightarrow> go_error + string"
  json_Marshal :: "'b \<Rightarrow> go_error + string"
  http_NewRequestWithContext :: "string \<Rightarrow> string \<Rightarrow> go_error option"
  json_Unmarshal_errResp :: "string \<Rightarrow> errResp option"
  json_Unmarshal :: "string \<Rightarrow> 'r \<Rightarrow> go_error option \<times> 'r"

text \<open>
  The world outside one logical call. \<open>client_Do cl k req\<close> is what the network gives to
  the \<open>k\<close>-th request (counted from 0) sent through \<open>cl\<close>. \<open>ctx_Done k\<close> is the outcome
  of the \<^verbatim>\<open>select\<close> that precedes the attempt made after \<open>k\<close> earlier ones: \<open>Some err\<close>
  when \<^verbatim>\<open><-ctx.Done()\<close> is taken, with \<open>err\<close> the value of \<^verbatim>\<open>ctx.Err()\<close>, and \<open>None\<close>
  when the timer of \<^verbatim>\<open>time.After\<close> is taken.
\<close>

record env =
  client_Do :: "http_Client \<Rightarrow> nat \<Rightarrow> request \<Rightarrow> net_result"
  ctx_Done :: "nat \<Rightarrow> go_error option"

text \<open>
  What a call does to the world: how many times \<^verbatim>\<open>executeRequest\<close> ran, the requests
  handed to \<^verbatim>\<open>c.client.Do\<close>, and the durations of the backoff waits that ran to their end.
\<close>

record world =
  attempts :: nat
  requests :: "request list"
  sleeps :: "64 word list"

definition world0 :: world where
  "world0 = \<lparr>attempts = 0, requests = [], sleeps = []\<rparr>"

subsection \<open>One attempt\<close>

text \<open>
  \<^verbatim>\<open>executeRequest\<close>, lines 108 to 151: the URL, the body and the request with its headers.
  \<open>body\<close> is \<open>None\<close> for a nil body.
\<close>

definition buildRequest ::
  "('b, 'r) stdlib \<Rightarrow> httpClient \<Rightarrow> string \<Rightarrow> string \<Rightarrow> 'b option \<Rightarrow> error + request" where
  "buildRequest L c method path body =
    (case url_JoinPath L (baseURL c) path of
       Inl err \<Rightarrow>
         Inl (PtrError \<lparr>Error.Code = ErrValidation, Message = ''invalid path: '' @ path,
                        StatusCode = 0, Details = None, Cause = Some err\<rparr>)
     | Inr reqURL \<Rightarrow>
        (case (case body of
                 None \<Rightarrow> Inr None
               | Some b \<Rightarrow>
                   (case json_Marshal L b of
                      Inl err \<Rightarrow>
                        Inl (PtrError \<lparr>Error.Code = ErrValidation,
                                       Message = ''failed to marshal request body'',
                                       StatusCode = 0, Details = None, Cause = Some err\<rparr>)
                    | Inr jsonBody \<Rightarrow> Inr (Some jsonBody))) of
           Inl e \<Rightarrow> Inl e
         | Inr bodyReader \<Rightarrow>
            (case http_NewRequestWithContext L method reqURL of
               Some err \<Rightarrow>
                 Inl (PtrError \<lparr>Error.Code = ErrNetworkError, Message = ''failed to create request'',
                                StatusCode = 0, Details = None, Cause = Some err\<rparr>)
             | None \<Rightarrow>
                 (let h0 = [''Content-Type'' \<mapsto> ''application/json'',
                            ''Accept'' \<mapsto> ''application/json''];
                      h1 = (if token c \<noteq> ''''
                            then h0(''Authorization'' \<mapsto> ''Bearer '' @ token c) else h0);
                      h2 = (if adminToken c \<noteq> ''''
                            then h1(''X-Admin-Token'' \<mapsto> adminToken c) else h1)
                  in Inr \<lparr>Method = method, URL = reqURL, Body = bodyReader, Header = h2\<rparr>))))"

text \<open>
  \<^verbatim>\<open>executeRequest\<close>, lines 153 to 190: what is made of the outcome of the network. \<open>result\<close>
  is \<open>None\<close> for a nil destination and \<open>Some v\<close> for a destination that holds \<open>v\<close>.
\<close>

definition handleResponse ::
  "('b, 'r) stdlib \<Rightarrow> net_result \<Rightarrow> 'r option \<Rightarrow> error option \<times> 'r option" where
  "handleResponse L nr result =
    (case nr of
       DoFailed err \<Rightarrow>
         (Some (PtrError \<lparr>Error.Code = ErrNetworkError, Message = ''request failed'',
                          StatusCode = 0, Details = None, Cause = Some err\<rparr>), result)
     | ReadFailed st err \<Rightarrow>
         (Some (PtrError \<lparr>Error.Code = ErrNetworkError,
                          Message = ''failed to read response body'',
                          StatusCode = 0, Details = None, Cause = Some err\<rparr>), result)
     | Response st respBody \<Rightarrow>
         (if st \<ge> 400 then (Some (parseHTTPError (json_Unmarshal_errResp L) st respBody), result)
          else
            (case result of
               Some v \<Rightarrow>
                 (if length respBody > 0 then
                    (case json_Unmarshal L respBody v of
                       (Some err, v') \<Rightarrow>
                         (Some (PtrError \<lparr>Error.Code = ErrInternalServer,
                                          Message = ''failed to parse response'',
                                          StatusCode = 0, Details = None, Cause = Some err\<rparr>),
                          Some v')
                     | (None, v') \<Rightarrow> (None, Some v'))
                  else (None, result))
             | None \<Rightarrow> (None, result))))"

text \<open>\<^verbatim>\<open>executeRequest\<close>: one attempt, with what it does to the world.\<close>

definition executeRequest ::
  "('b, 'r) stdlib \<Rightarrow> env \<Rightarrow> httpClient \<Rightarrow> string \<Rightarrow> string \<Rightarrow> 'b option \<Rightarrow> 'r option \<Rightarrow> world
     \<Rightarrow> error option \<times> 'r option \<times> world" where
  "executeRequest L E c method path body result w =
    (let w1 = w\<lparr>attempts := Suc (attempts w)\<rparr>
     in case buildRequest L c method path body of
          Inl e \<Rightarrow> (Some e, result, w1)
        | Inr req \<Rightarrow>
           (let w2 = w1\<lparr>requests := requests w1 @ [req]\<rparr>;
                (err, result') =
                   handleResponse L (client_Do E (client c) (length (requests w1)) req) result
            in (err, result', w2)))"

subsection \<open>The retry loop\<close>

text \<open>
  The test of lines 94 to 98: the error is a \<^verbatim>\<open>*Error\<close> and its status is in
  \<open>[400, 500)\<close>.
\<close>

fun isClientError :: "error \<Rightarrow> bool" where
  "isClientError (PtrError e) = (Error.StatusCode e \<ge> 400 \<and> Error.StatusCode e < 500)"
| "isClientError (PtrQuotaError qe) = False"

text \<open>
  The loop of \<^verbatim>\<open>doRequest\<close>, from the attempt of index \<open>attempt\<close> on. Go's \<^verbatim>\<open>int\<close> counter
  wraps around at \<open>2^63\<close>, so with \<^verbatim>\<open>maxRetries\<close> at the largest \<^verbatim>\<open>int\<close> the loop need not
  end: the result is an option, and \<open>None\<close> is a call that never returns.
\<close>

partial_function (option) doRequest_loop ::
  "('b, 'r) stdlib \<Rightarrow> env \<Rightarrow> httpClient \<Rightarrow> string \<Rightarrow> string \<Rightarrow> 'b option \<Rightarrow> 'r option
     \<Rightarrow> 64 word \<Rightarrow> error option \<Rightarrow> world \<Rightarrow> (error option \<times> 'r option \<times> world) option" where
  "doRequest_loop L E c method path body result attempt lastErr w =
    (if attempt \<le>s maxRetries c then
       (case (if 0 <s attempt then
                (case ctx_Done E (attempts w) of
                   Some cerr \<Rightarrow>
                     Inl (PtrError \<lparr>Error.Code = ErrTimeout, Message = ''request cancelled'',
                                    StatusCode = 0, Details = None, Cause = Some cerr\<rparr>)
                 | None \<Rightarrow> Inr (w\<lparr>sleeps := sleeps w @ [retryWait c * attempt]\<rparr>))
              else Inr w) of
          Inl e \<Rightarrow> Some (Some e, result, w)
        | Inr w1 \<Rightarrow>
           (case executeRequest L E c method path body result w1 of
              (None, result', w2) \<Rightarrow> Some (None, result', w2)
            | (Some err, result', w2) \<Rightarrow>
                if isClientError err then Some (Some err, result', w2)
                else doRequest_loop L E c method path body result' (attempt + 1) (Some err) w2))
     else Some (lastErr, result, w))"

definition doRequest ::
  "('b, 'r) stdlib \<Rightarrow> env \<Rightarrow> httpClient \<Rightarrow> string \<Rightarrow> string \<Rightarrow> 'b option \<Rightarrow> 'r option \<Rightarrow> world
     \<Rightarrow> (error option \<times> 'r option \<times> world) option" where
  "doRequest L E c method path body result w =
     doRequest_loop L E c method path body result 0 None w"

text \<open>The five verbs.\<close>

definition Get ::
  "('b, 'r) stdlib \<Rightarrow> env \<Rightarrow> httpClient \<Rightarrow> string \<Rightarrow> 'r option \<Rightarrow> world
     \<Rightarrow> (error option \<times> 'r option \<times> world) option" where
  "Get L E c path result w = doRequest L E c ''GET'' path None result w"

definition Post ::
  "('b, 'r) stdlib \<Rightarrow> env \<Rightarrow> httpClient \<Rightarrow> string \<Rightarrow> 'b option \<Rightarrow> 'r option \<Rightarrow> world
     \<Rightarrow> (error option \<times> 'r option \<times> world) option" where
  "Post L E c path body result w = doRequest L E c ''POST'' path body result w"

definition Put ::
  "('b, 'r) stdlib \<Rightarrow> env \<Rightarrow> httpClient \<Rightarrow> string \<Rightarrow> 'b option \<Rightarrow> 'r option \<Rightarrow> world
     \<Rightarrow> (error option \<times> 'r option \<times> world) option" where
  "Put L E c path body result w = doRequest L E c ''PUT'' path body result w"

definition Patch ::
  "('b, 'r) stdlib \<Rightarrow> env \<Rightarrow> httpClient \<Rightarrow> string \<Rightarrow> 'b option \<Rightarrow> 'r option \<Rightarrow> world
     \<Rightarrow> (error option \<times> 'r option \<times> world) option" where
  "Patch L E c path body result w = doRequest L E c ''PATCH'' path body result w"

definition Delete ::
  "('b, 'r) stdlib \<Rightarrow> env \<Rightarrow> httpClient \<Rightarrow> string \<Rightarrow> world
     \<Rightarrow> (error option \<times> 'r option \<times> world) option" where
  "Delete L E c path w = doRequest L E c ''DELETE'' path None None w"

section \<open>Configuration and construction of the client\<close>

type_synonym Environment = string

abbreviation EnvProduction :: Environment where "EnvProduction \<equiv> ''PROD''"
abbreviation EnvDevelopment :: Environment where "EnvDevelopment \<equiv> ''DEV''"

record Config =
  AuthURL :: string
  SensorURL :: string
  UIURL :: string
  WorkflowURL :: string
  BackofficeURL :: string
  SSEURL :: string
  SubscriptionURL :: string
  AudioStreamURL :: string
  Token :: string
  AdminSecret :: string
  Timeout :: "64 word"
  MaxRetries :: "64 word"
  RetryWait :: "64 word"
  HTTPClient :: "http_Client option"
  Debug :: bool

text \<open>\<^verbatim>\<open>type Option func(*Config)\<close>: the configuration goes in and comes out changed.\<close>

type_synonym Option = "Config \<Rightarrow> Config"

text \<open>\<^verbatim>\<open>getEnvironmentFromEnv\<close>; the argument is \<^verbatim>\<open>os.Getenv\<close>.\<close>

definition getEnvironmentFromEnv :: "(string \<Rightarrow> string) \<Rightarrow> Environment" where
  "getEnvironmentFromEnv getenv =
     (if getenv ''WHOOKTOWN_ENV'' = ''DEV'' then EnvDevelopment else EnvProduction)"

definition configForEnvironment :: "Environment \<Rightarrow> Config" where
  "configForEnvironment environment =
    (let cfg = \<lparr>AuthURL = '''', SensorURL = '''', UIURL = '''', WorkflowURL = '''',
                 BackofficeURL = '''', SSEURL = '''', SubscriptionURL = '''',
                 AudioStreamURL = '''', Token = '''', AdminSecret = '''',
                 Timeout = 30 * time_Second, MaxRetries = 3, RetryWait = time_Second,
                 HTTPClient = None, Debug = False\<rparr>
     in if environment = EnvDevelopment then
          cfg\<lparr>AuthURL := ''https://auth.dev.whook.town'',
              SensorURL := ''https://sensors.dev.whook.town'',
              UIURL := ''https://api.dev.whook.town'',
              WorkflowURL := ''https://api.dev.whook.town'',
              BackofficeURL := ''https://admin.dev.whook.town'',
              SSEURL := ''https://ws.dev.whook.town'',
              SubscriptionURL := ''https://subscription.dev.whook.town'',
              AudioStreamURL := ''https://stream.dev.whook.town''\<rparr>
        else
          cfg\<lparr>AuthURL := ''https://auth.whook.town'',
              SensorURL := ''https://sensors.whook.town'',
              UIURL := ''https://api.whook.town'',
              WorkflowURL := ''https://api.whook.town'',
              BackofficeURL := ''https://admin.whook.town'',
              SSEURL := ''https://ws.whook.town'',
              SubscriptionURL := ''https://subscription.whook.town'',
              AudioStreamURL := ''https://stream.whook.town''\<rparr>)"

definition defaultConfig :: "(string \<Rightarrow> string) \<Rightarrow> Config" where
  "defaultConfig getenv = configForEnvironment (getEnvironmentFromEnv getenv)"

definition validate :: "Config \<Rightarrow> go_error option" where
  "validate c = None"

definition WithToken :: "string \<Rightarrow> Option" where
  "WithToken t = (\<lambda>c. c\<lparr>Token := t\<rparr>)"

definition WithAdminSecret :: "string \<Rightarrow> Option" where
  "WithAdminSecret secret = (\<lambda>c. c\<lparr>AdminSecret := secret\<rparr>)"

definition WithTimeout :: "64 word \<Rightarrow> Option" where
  "WithTimeout t = (\<lambda>c. c\<lparr>Config.Timeout := t\<rparr>)"

definition WithHTTPClient :: "http_Client option \<Rightarrow> Option" where
  "WithHTTPClient cl = (\<lambda>c. c\<lparr>HTTPClient := cl\<rparr>)"

definition WithRetry :: "64 word \<Rightarrow> 64 word \<Rightarrow> Option" where
  "WithRetry maxRetries' retryWait' = (\<lambda>c. c\<lparr>MaxRetries := maxRetries', RetryWait := retryWait'\<rparr>)"

definition WithDebug :: "bool \<Rightarrow> Option" where
  "WithDebug d = (\<lambda>c. c\<lparr>Debug := d\<rparr>)"

text \<open>
  \<^verbatim>\<open>Client\<close>. Each service client is a struct whose one field is the pointer to its
  transport, so the field of the service holds the transport.
\<close>

record Client =
  config :: Config
  httpClient :: http_Client
  Auth :: httpClient
  Sensors :: httpClient
  UI :: httpClient
  Camera :: httpClient
  Traffic :: httpClient
  Popup :: httpClient
  Groups :: httpClient
  Workflow :: httpClient
  Backoffice :: httpClient

definition New :: "(string \<Rightarrow> string) \<Rightarrow> Option list \<Rightarrow> go_error + Client" where
  "New getenv opts =
    (let cfg = fold (\<lambda>opt cfg. opt cfg) opts (defaultConfig getenv)
     in case validate cfg of
          Some err \<Rightarrow> Inl err
        | None \<Rightarrow>
           (let httpClient = (case HTTPClient cfg of
                                None \<Rightarrow> \<lparr>http_Client.Timeout = Config.Timeout cfg\<rparr>
                              | Some h \<Rightarrow> h);
                authHTTP = SetToken (newHTTPClient httpClient (AuthURL cfg)) (Token cfg);
                sensorHTTP = SetToken (newHTTPClient httpClient (SensorURL cfg)) (Token cfg);
                uiHTTP = SetToken (newHTTPClient httpClient (UIURL cfg)) (Token cfg);
                workflowHTTP = SetToken (newHTTPClient httpClient (WorkflowURL cfg)) (Token cfg);
                backofficeHTTP =
                  SetAdminToken (newHTTPClient httpClient (BackofficeURL cfg)) (AdminSecret cfg)
            in Inr \<lparr>config = cfg, httpClient = httpClient,
                     Auth = authHTTP, Sensors = sensorHTTP, UI = uiHTTP, Camera = uiHTTP,
                     Traffic = uiHTTP, Popup = uiHTTP, Groups = uiHTTP,
                     Workflow = workflowHTTP, Backoffice = backofficeHTTP\<rparr>))"

section \<open>The specification's vocabulary\<close>

subsection \<open>The classifier, in the words of the specification\<close>

text \<open>The three codes that mark a quota failure.\<close>

definition quota_code :: "string \<Rightarrow> bool" where
  "quota_code code =
     (code \<in> {''QUOTA_EXCEEDED'', ''ASSET_QUOTA_EXCEEDED'', ''LAYOUT_QUOTA_EXCEEDED''})"

text \<open>The body parses as the loose error object and its \<^verbatim>\<open>code\<close> is one of the three.\<close>

definition resolved_as_quota :: "(string \<Rightarrow> errResp option) \<Rightarrow> string \<Rightarrow> bool" where
  "resolved_as_quota unmarshal body =
     (case unmarshal body of None \<Rightarrow> False | Some r \<Rightarrow> quota_code (errResp.Code r))"

text \<open>The table from status to kind, and the default message of each kind.\<close>

definition kind_of_status :: "int \<Rightarrow> ErrorCode" where
  "kind_of_status st =
     (if st = 401 then ErrUnauthorized else if st = 403 then ErrForbidden
      else if st = 404 then ErrNotFound else if st = 400 then ErrBadRequest
      else if st = 402 then ErrQuotaExceeded else ErrInternalServer)"

definition default_message :: "int \<Rightarrow> string" where
  "default_message st =
     (if st = 401 then ''unauthorized'' else if st = 403 then ''forbidden''
      else if st = 404 then ''not found'' else if st = 400 then ''bad request''
      else if st = 402 then ''quota exceeded'' else ''server error: '' @ Sprintf_d st)"

text \<open>Message precedence: \<^verbatim>\<open>message\<close>, else \<^verbatim>\<open>error\<close>, else blank.\<close>

definition preferred_message :: "errResp \<Rightarrow> string" where
  "preferred_message r =
     (if errResp.Message r \<noteq> '''' then errResp.Message r
      else if errResp.Error r \<noteq> '''' then errResp.Error r else '''')"

text \<open>
  The message extracted from the body: by precedence when the body parses; the raw text when
  it does not parse and is not empty; blank otherwise.
\<close>

definition extracted_message :: "(string \<Rightarrow> errResp option) \<Rightarrow> string \<Rightarrow> string" where
  "extracted_message unmarshal body =
     (case unmarshal body of
        Some r \<Rightarrow> preferred_message r
      | None \<Rightarrow> (if body \<noteq> '''' then body else ''''))"

text \<open>
  A field of \<^verbatim>\<open>details\<close> read as a string, or as a number truncated to an integer, with
  the zero value when the mapping is nil, the key is absent or the value has another type.
\<close>

definition truncated :: "rat \<Rightarrow> int" where
  "truncated x = (if x < 0 then - floor (- x) else floor x)"

definition string_field :: "details \<Rightarrow> string \<Rightarrow> string" where
  "string_field d k =
     (case d of
        None \<Rightarrow> ''''
      | Some m \<Rightarrow> (case m k of Some (JString s) \<Rightarrow> s | _ \<Rightarrow> ''''))"

definition integer_field :: "details \<Rightarrow> string \<Rightarrow> int" where
  "integer_field d k =
     (case d of
        None \<Rightarrow> 0
      | Some m \<Rightarrow> (case m k of Some (JFloat64 x) \<Rightarrow> truncated x | _ \<Rightarrow> 0))"

text \<open>An integer that a 64-bit \<^verbatim>\<open>int\<close> holds.\<close>

definition fits_int64 :: "int \<Rightarrow> bool" where
  "fits_int64 k = (- (2 ^ 63) \<le> k \<and> k < 2 ^ 63)"

text \<open>
  A numeric field of \<^verbatim>\<open>details\<close> as the conversion \<^verbatim>\<open>int(x)\<close> stores it, with the zero
  value when the mapping is nil, the key is absent or the value has another type.
\<close>

definition converted_field :: "details \<Rightarrow> string \<Rightarrow> 64 word" where
  "converted_field d k =
     (case d of
        None \<Rightarrow> 0
      | Some m \<Rightarrow> (case m k of Some (JFloat64 x) \<Rightarrow> int_of_float64 x | _ \<Rightarrow> 0))"


fun error_Message :: "error \<Rightarrow> string" where
  "error_Message (PtrError e) = Error.Message e"
| "error_Message (PtrQuotaError qe) = QuotaError.Message qe"

fun error_StatusCode :: "error \<Rightarrow> int" where
  "error_StatusCode (PtrError e) = Error.StatusCode e"
| "error_StatusCode (PtrQuotaError qe) = QuotaError.StatusCode qe"

fun is_QuotaError :: "error \<Rightarrow> bool" where
  "is_QuotaError (PtrQuotaError qe) = True"
| "is_QuotaError (PtrError e) = False"

subsection \<open>The course of a call\<close>

text \<open>The requests one attempt hands to the network: one, or none when building it fails.\<close>

definition sent ::
  "('b, 'r) stdlib \<Rightarrow> httpClient \<Rightarrow> string \<Rightarrow> string \<Rightarrow> 'b option \<Rightarrow> request list" where
  "sent L c method path body =
     (case buildRequest L c method path body of Inl e \<Rightarrow> [] | Inr req \<Rightarrow> [req])"

text \<open>
  What an attempt returns and leaves in the destination when \<open>k\<close> requests went to the
  network before it.
\<close>

definition attempt_outcome ::
  "('b, 'r) stdlib \<Rightarrow> env \<Rightarrow> httpClient \<Rightarrow> string \<Rightarrow> string \<Rightarrow> 'b option \<Rightarrow> 'r option \<Rightarrow> nat
     \<Rightarrow> error option \<times> 'r option" where
  "attempt_outcome L E c method path body result k =
     (case buildRequest L c method path body of
        Inl e \<Rightarrow> (Some e, result)
      | Inr req \<Rightarrow> handleResponse L (client_Do E (client c) k req) result)"

text \<open>
  The backoff waits that precede the attempts of index \<open>i\<close> to \<open>i + k - 1\<close>: none before
  the attempt of index 0, \<^verbatim>\<open>retryWait * attempt\<close> before each other one.
\<close>

definition backoffs :: "httpClient \<Rightarrow> nat \<Rightarrow> nat \<Rightarrow> 64 word list" where
  "backoffs c i k =
     map (\<lambda>a. retryWait c * word_of_nat a) (filter (\<lambda>a. 0 < a) [i..<i + k])"

text \<open>The world after the \<open>k\<close> attempts of index \<open>i\<close> to \<open>i + k - 1\<close>, each with its wait.\<close>

definition after_attempts ::
  "('b, 'r) stdlib \<Rightarrow> httpClient \<Rightarrow> string \<Rightarrow> string \<Rightarrow> 'b option \<Rightarrow> nat \<Rightarrow> nat \<Rightarrow> world
     \<Rightarrow> world" where
  "after_attempts L c method path body i k w =
     w\<lparr>attempts := attempts w + k,
       requests := requests w @ concat (replicate k (sent L c method path body)),
       sleeps := sleeps w @ backoffs c i k\<rparr>"

text \<open>A retryable outcome of the network: a failure of the transport, or a status of 500 or more.\<close>

fun retryable :: "net_result \<Rightarrow> bool" where
  "retryable (DoFailed err) = True"
| "retryable (ReadFailed st err) = True"
| "retryable (Response st respBody) = (500 \<le> st)"

text \<open>The transports of a client.\<close>

definition transports :: "Client \<Rightarrow> httpClient list" where
  "transports cl =
     [Auth cl, Sensors cl, UI cl, Camera cl, Traffic cl, Popup cl, Groups cl, Workflow cl,
      Backoffice cl]"

section \<open>Concrete instances\<close>

text \<open>
  Stand-ins for the standard library, the network and a transport, for the concrete runs of
  the transport below. Bodies and destinations are strings here; the body \<open>''chan''\<close> stands
  for a Go value that \<^verbatim>\<open>json.Marshal\<close> rejects.
\<close>

definition quota_body :: string where
  \<open>quota_body = ''{"code":"QUOTA_EXCEEDED","message":"asset quota reached"}''\<close>

definition example_stdlib :: "(string, string) stdlib" where
  "example_stdlib =
     \<lparr>url_JoinPath = (\<lambda>base p. Inr (base @ p)),
      json_Marshal = (\<lambda>b. if b = ''chan''
                           then Inl (errorString ''json: unsupported type: chan int'')
                           else Inr b),
      http_NewRequestWithContext = (\<lambda>m u. None),
      json_Unmarshal_errResp =
        map_of [(quota_body,
                 \<lparr>errResp.Message = ''asset quota reached'', Error = '''',
                  Code = ''QUOTA_EXCEEDED'', Details = None\<rparr>)],
      json_Unmarshal = (\<lambda>b v. (None, b))\<rparr>"

text \<open>A server that gives the same answer to every request, under a context never cancelled.\<close>

definition example_server :: "int \<Rightarrow> string \<Rightarrow> env" where
  "example_server st respBody =
     \<lparr>client_Do = (\<lambda>cl k req. Response st respBody), ctx_Done = (\<lambda>k. None)\<rparr>"

definition example_transport :: httpClient where
  "example_transport =
     newHTTPClient \<lparr>http_Client.Timeout = 30 * time_Second\<rparr> ''https://api.whook.town/''"

definition example_request :: "string \<Rightarrow> string option \<Rightarrow> request" where
  "example_request method b =
     \<lparr>Method = method, URL = ''https://api.whook.town/layouts'', Body = b,
      Header = [''Content-Type'' \<mapsto> ''application/json'', ''Accept'' \<mapsto> ''application/json'']\<rparr>"

text \<open>
  The server that always answers 503, under a context cancelled during the wait that
  precedes the attempt of index \<open>a\<close>.
\<close>

definition example_cancelled :: "nat \<Rightarrow> env" where
  "example_cancelled a =
     \<lparr>client_Do = (\<lambda>cl k req. Response 503 ''down''),
      ctx_Done = (\<lambda>k. if k = a then Some context_Canceled else None)\<rparr>"

text \<open>
  The server that answers 503 to the first request and 204 with an empty body to the others,
  under a context never cancelled.
\<close>

definition example_recovering :: env where
  "example_recovering =
     \<lparr>client_Do = (\<lambda>cl k req. if k = 0 then Response 503 ''down'' else Response 204 ''''),
      ctx_Done = (\<lambda>k. None)\<rparr>"

text \<open>
  A quota failure whose \<^verbatim>\<open>current\<close> is \<open>10^30\<close>, a number that JSON can carry and a
  64-bit \<^verbatim>\<open>int\<close> cannot hold.
\<close>

definition overflow_body :: string where
  \<open>overflow_body =
     ''{"code":"ASSET_QUOTA_EXCEEDED","details":{"plan":"free","current":1e30,"limit":5,"type":"assets"}}''\<close>

definition overflow_errResp :: errResp where
  "overflow_errResp =
     \<lparr>errResp.Message = '''', Error = '''', Code = ''ASSET_QUOTA_EXCEEDED'',
      Details = Some [''plan'' \<mapsto> JString ''free'',
                      ''current'' \<mapsto> JFloat64 1000000000000000000000000000000,
                      ''limit'' \<mapsto> JFloat64 5, ''type'' \<mapsto> JString ''assets'']\<rparr>"

section \<open>The classifier: proofs\<close>

lemma setErrorCode_eq:
  "setErrorCode st e =
     e\<lparr>Error.Code := kind_of_status st,
       Error.Message := (if Error.Message e = '''' then default_message st else Error.Message e)\<rparr>"
  by (simp add: setErrorCode_def kind_of_status_def default_message_def Let_def)

lemma parseErrorBody_None:
  "U body = None \<Longrightarrow>
   parseErrorBody U st body =
     Inr \<lparr>Error.Code = '''', Message = body, StatusCode = st, Details = None, Cause = None\<rparr>"
  by (simp add: parseErrorBody_def Let_def)

lemma parseErrorBody_generic:
  "U body = Some r \<Longrightarrow> \<not> quota_code (errResp.Code r) \<Longrightarrow>
   parseErrorBody U st body =
     Inr \<lparr>Error.Code = '''', Message = preferred_message r, StatusCode = st,
          Details = errResp.Details r, Cause = None\<rparr>"
  by (simp add: parseErrorBody_def Let_def quota_code_def preferred_message_def)

lemma truncated_floor_ceiling: "(if 0 \<le> x then floor x else ceiling x) = truncated x"
  by (simp add: truncated_def ceiling_def)

lemma int_of_float64_fits:
  "fits_int64 (truncated x) \<Longrightarrow> sint (int_of_float64 x) = truncated x"
  unfolding int_of_float64_def truncated_floor_ceiling Let_def fits_int64_def
  by (simp add: signed_of_int signed_take_bit_int_eq_self)

lemma int_of_float64_overflow:
  "\<not> fits_int64 (truncated x) \<Longrightarrow> int_of_float64 x = word_of_int (- (2 ^ 63))"
  unfolding int_of_float64_def truncated_floor_ceiling Let_def fits_int64_def
  by auto

lemma converted_field_fits:
  "fits_int64 (integer_field d k) \<Longrightarrow> sint (converted_field d k) = integer_field d k"
  by (auto simp: converted_field_def integer_field_def int_of_float64_fits
        split: option.splits jvalue.splits)

lemma converted_field_overflow:
  "\<not> fits_int64 (integer_field d k) \<Longrightarrow> converted_field d k = word_of_int (- (2 ^ 63))"
  by (auto simp: converted_field_def integer_field_def int_of_float64_overflow fits_int64_def
        split: option.splits jvalue.splits)

lemma assert_string_field:
  "(case assert_string (m k) of Some s \<Rightarrow> s | None \<Rightarrow> '''') = string_field (Some m) k"
  by (cases "m k" rule: assert_string.cases) (simp_all add: string_field_def)

lemma assert_float64_field:
  "(case assert_float64 (m k) of Some x \<Rightarrow> int_of_float64 x | None \<Rightarrow> 0) =
     converted_field (Some m) k"
  by (cases "m k" rule: assert_float64.cases) (simp_all add: converted_field_def)

lemma parseErrorBody_quota:
  assumes "U body = Some r" and "quota_code (errResp.Code r)"
  shows "parseErrorBody U st body =
     Inl \<lparr>QuotaError.Code = ErrQuotaExceeded, Message = preferred_message r, StatusCode = st,
          Plan = string_field (errResp.Details r) ''plan'',
          Current = converted_field (errResp.Details r) ''current'',
          Limit = converted_field (errResp.Details r) ''limit'',
          QuotaType = string_field (errResp.Details r) ''type''\<rparr>"
proof (cases "errResp.Details r")
  case None
  with assms show ?thesis
    by (simp add: parseErrorBody_def Let_def quota_code_def preferred_message_def
          string_field_def converted_field_def)
next
  case (Some m)
  have q: "errResp.Code r = ''QUOTA_EXCEEDED'' \<or> errResp.Code r = ''ASSET_QUOTA_EXCEEDED''
           \<or> errResp.Code r = ''LAYOUT_QUOTA_EXCEEDED''"
    using assms(2) by (simp add: quota_code_def)
  have msg: "Error.Message
          (if errResp.Message r \<noteq> ''''
           then \<lparr>Error.Code = '''', Message = '''', StatusCode = st, Details = None, Cause = None\<rparr>
                  \<lparr>Error.Message := errResp.Message r\<rparr>
           else if errResp.Error r \<noteq> ''''
           then \<lparr>Error.Code = '''', Message = '''', StatusCode = st, Details = None, Cause = None\<rparr>
                  \<lparr>Error.Message := errResp.Error r\<rparr>
           else \<lparr>Error.Code = '''', Message = '''', StatusCode = st, Details = None, Cause = None\<rparr>)
        = preferred_message r"
    by (simp add: preferred_message_def)
  show ?thesis
    unfolding parseErrorBody_def Let_def assms(1) option.case if_P [OF q] msg Some
    by (simp add: assert_string_field [symmetric] assert_float64_field [symmetric]
          split: option.splits)
qed

text \<open>
  Claim C5, as stated, at a quota failure whose \<^verbatim>\<open>current\<close> is \<open>10^30\<close>: the number
  truncated to an integer is \<open>10^30\<close> itself, and the field \<^verbatim>\<open>Current\<close> of the error
  holds \<open>-2^63\<close>.
\<close>

theorem quota_number_out_of_range:
  "parseHTTPError (map_of [(overflow_body, overflow_errResp)]) 402 overflow_body
     = PtrQuotaError
        \<lparr>QuotaError.Code = ErrQuotaExceeded, Message = '''', StatusCode = 402,
         Plan = ''free'', Current = word_of_int (- 9223372036854775808), Limit = 5,
         QuotaType = ''assets''\<rparr>
   \<and> sint (word_of_int (- 9223372036854775808) :: 64 word) = - 9223372036854775808
   \<and> truncated 1000000000000000000000000000000 = 1000000000000000000000000000000"
proof -
  have p: "map_of [(overflow_body, overflow_errResp)] overflow_body = Some overflow_errResp"
    by simp
  have q: "quota_code (errResp.Code overflow_errResp)"
    by (simp add: overflow_errResp_def quota_code_def)
  have t: "truncated 1000000000000000000000000000000 = 1000000000000000000000000000000"
    by (simp add: truncated_def)
  have c: "converted_field (errResp.Details overflow_errResp) ''current''
             = word_of_int (- 9223372036854775808)"
    by (simp add: converted_field_def overflow_errResp_def int_of_float64_overflow t
          fits_int64_def)
  have l: "converted_field (errResp.Details overflow_errResp) ''limit'' = 5"
    by (simp add: converted_field_def overflow_errResp_def int_of_float64_def)
  have s: "sint (word_of_int (- 9223372036854775808) :: 64 word) = - 9223372036854775808"
    by (simp add: signed_of_int signed_take_bit_int_eq_self)
  have "parseHTTPError (map_of [(overflow_body, overflow_errResp)]) 402 overflow_body
     = PtrQuotaError
        \<lparr>QuotaError.Code = ErrQuotaExceeded, Message = preferred_message overflow_errResp,
         StatusCode = 402,
         Plan = string_field (errResp.Details overflow_errResp) ''plan'',
         Current = converted_field (errResp.Details overflow_errResp) ''current'',
         Limit = converted_field (errResp.Details overflow_errResp) ''limit'',
         QuotaType = string_field (errResp.Details overflow_errResp) ''type''\<rparr>"
    using parseErrorBody_quota [of "map_of [(overflow_body, overflow_errResp)]" overflow_body
        overflow_errResp 402] p q
    by (simp add: parseHTTPError_def)
  then show ?thesis
    unfolding c l using s t
    by (simp add: preferred_message_def string_field_def overflow_errResp_def)
qed

text \<open>
  Claim C5, amended. When the body parses and its \<^verbatim>\<open>code\<close> is one of
  \<^verbatim>\<open>QUOTA_EXCEEDED\<close>, \<^verbatim>\<open>ASSET_QUOTA_EXCEEDED\<close>, \<^verbatim>\<open>LAYOUT_QUOTA_EXCEEDED\<close>, the
  classifier returns the quota error with the message and the status, and with
  \<^verbatim>\<open>Plan\<close>, \<^verbatim>\<open>Current\<close>, \<^verbatim>\<open>Limit\<close>, \<^verbatim>\<open>QuotaType\<close> read from \<^verbatim>\<open>details\<close>, each field
  on its own being the zero value when it is absent or has another type. A number is
  truncated to an integer when the truncated value fits the 64-bit \<^verbatim>\<open>int\<close>; a number
  that does not fit gives the out-of-range result of the conversion, \<open>-2^63\<close> on amd64,
  and not the truncated number.
\<close>

theorem quota_error_fields:
  assumes "U body = Some r" and "quota_code (errResp.Code r)"
  shows "\<exists>qe. parseHTTPError U st body = PtrQuotaError qe
     \<and> QuotaError.Code qe = ErrQuotaExceeded
     \<and> QuotaError.Message qe = preferred_message r
     \<and> QuotaError.StatusCode qe = st
     \<and> Plan qe = string_field (errResp.Details r) ''plan''
     \<and> QuotaType qe = string_field (errResp.Details r) ''type''
     \<and> (if fits_int64 (integer_field (errResp.Details r) ''current'')
         then sint (Current qe) = integer_field (errResp.Details r) ''current''
         else Current qe = word_of_int (- (2 ^ 63)))
     \<and> (if fits_int64 (integer_field (errResp.Details r) ''limit'')
         then sint (Limit qe) = integer_field (errResp.Details r) ''limit''
         else Limit qe = word_of_int (- (2 ^ 63)))"
  using parseErrorBody_quota [of U body r st] assms
  by (simp add: parseHTTPError_def converted_field_fits converted_field_overflow)

lemma word_of_sint:
  assumes "sint (w :: 64 word) = k"
  shows "w = word_of_int k"
  using assms [symmetric] by simp

theorem quota_error_fields_witness:
  \<open>map_of
      [(''{"code":"ASSET_QUOTA_EXCEEDED","details":{"plan":"free","current":5,"limit":5,"type":"assets"}}'',
        \<lparr>errResp.Message = '''', Error = '''', Code = ''ASSET_QUOTA_EXCEEDED'',
         Details = Some [''plan'' \<mapsto> JString ''free'', ''current'' \<mapsto> JFloat64 5,
                         ''limit'' \<mapsto> JFloat64 5, ''type'' \<mapsto> JString ''assets'']\<rparr>)]
      ''{"code":"ASSET_QUOTA_EXCEEDED","details":{"plan":"free","current":5,"limit":5,"type":"assets"}}''
    = Some \<lparr>errResp.Message = '''', Error = '''', Code = ''ASSET_QUOTA_EXCEEDED'',
         Details = Some [''plan'' \<mapsto> JString ''free'', ''current'' \<mapsto> JFloat64 5,
                         ''limit'' \<mapsto> JFloat64 5, ''type'' \<mapsto> JString ''assets'']\<rparr>
   \<and> quota_code ''ASSET_QUOTA_EXCEEDED''
   \<and> parseHTTPError
      (map_of
        [(''{"code":"ASSET_QUOTA_EXCEEDED","details":{"plan":"free","current":5,"limit":5,"type":"assets"}}'',
          \<lparr>errResp.Message = '''', Error = '''', Code = ''ASSET_QUOTA_EXCEEDED'',
           Details = Some [''plan'' \<mapsto> JString ''free'', ''current'' \<mapsto> JFloat64 5,
                           ''limit'' \<mapsto> JFloat64 5, ''type'' \<mapsto> JString ''assets'']\<rparr>)])
      402
      ''{"code":"ASSET_QUOTA_EXCEEDED","details":{"plan":"free","current":5,"limit":5,"type":"assets"}}''
    = PtrQuotaError
       \<lparr>QuotaError.Code = ErrQuotaExceeded, Message = '''', StatusCode = 402,
        Plan = ''free'', Current = 5, Limit = 5, QuotaType = ''assets''\<rparr>
   \<and> map_of
      [(''{"code":"QUOTA_EXCEEDED","error":"over","details":{"current":7.9,"limit":"5","type":1}}'',
        \<lparr>errResp.Message = '''', Error = ''over'', Code = ''QUOTA_EXCEEDED'',
         Details = Some [''current'' \<mapsto> JFloat64 (79 / 10), ''limit'' \<mapsto> JString ''5'',
                         ''type'' \<mapsto> JFloat64 1]\<rparr>)]
      ''{"code":"QUOTA_EXCEEDED","error":"over","details":{"current":7.9,"limit":"5","type":1}}''
    = Some \<lparr>errResp.Message = '''', Error = ''over'', Code = ''QUOTA_EXCEEDED'',
         Details = Some [''current'' \<mapsto> JFloat64 (79 / 10), ''limit'' \<mapsto> JString ''5'',
                         ''type'' \<mapsto> JFloat64 1]\<rparr>
   \<and> quota_code ''QUOTA_EXCEEDED''
   \<and> parseHTTPError
      (map_of
        [(''{"code":"QUOTA_EXCEEDED","error":"over","details":{"current":7.9,"limit":"5","type":1}}'',
          \<lparr>errResp.Message = '''', Error = ''over'', Code = ''QUOTA_EXCEEDED'',
           Details = Some [''current'' \<mapsto> JFloat64 (79 / 10), ''limit'' \<mapsto> JString ''5'',
                           ''type'' \<mapsto> JFloat64 1]\<rparr>)])
      429
      ''{"code":"QUOTA_EXCEEDED","error":"over","details":{"current":7.9,"limit":"5","type":1}}''
    = PtrQuotaError
       \<lparr>QuotaError.Code = ErrQuotaExceeded, Message = ''over'', StatusCode = 429,
        Plan = '''', Current = 7, Limit = 0, QuotaType = ''''\<rparr>\<close>
proof -
  let ?b1 = \<open>''{"code":"ASSET_QUOTA_EXCEEDED","details":{"plan":"free","current":5,"limit":5,"type":"assets"}}''\<close>
  let ?r1 = "\<lparr>errResp.Message = '''', Error = '''', Code = ''ASSET_QUOTA_EXCEEDED'',
         Details = Some [''plan'' \<mapsto> JString ''free'', ''current'' \<mapsto> JFloat64 5,
                         ''limit'' \<mapsto> JFloat64 5, ''type'' \<mapsto> JString ''assets'']\<rparr>"
  let ?b2 = \<open>''{"code":"QUOTA_EXCEEDED","error":"over","details":{"current":7.9,"limit":"5","type":1}}''\<close>
  let ?r2 = "\<lparr>errResp.Message = '''', Error = ''over'', Code = ''QUOTA_EXCEEDED'',
         Details = Some [''current'' \<mapsto> JFloat64 (79 / 10), ''limit'' \<mapsto> JString ''5'',
                         ''type'' \<mapsto> JFloat64 1]\<rparr>"
  have p1: "map_of [(?b1, ?r1)] ?b1 = Some ?r1" by simp
  have q1: "quota_code (errResp.Code ?r1)" by (simp add: quota_code_def)
  have p2: "map_of [(?b2, ?r2)] ?b2 = Some ?r2" by simp
  have q2: "quota_code (errResp.Code ?r2)" by (simp add: quota_code_def)
  have five: "truncated 5 = 5" by (simp add: truncated_def)
  have tr: "truncated (79 / 10) = 7" unfolding truncated_def by code_simp
  from quota_error_fields [of "map_of [(?b1, ?r1)]" ?b1 ?r1 402] p1 q1
  obtain qe1 where e1: "parseHTTPError (map_of [(?b1, ?r1)]) 402 ?b1 = PtrQuotaError qe1"
    and f1: "QuotaError.Code qe1 = ErrQuotaExceeded" "QuotaError.Message qe1 = ''''"
      "QuotaError.StatusCode qe1 = 402" "Plan qe1 = ''free''" "QuotaType qe1 = ''assets''"
      "sint (Current qe1) = 5" "sint (Limit qe1) = 5"
    by (auto simp: preferred_message_def string_field_def integer_field_def five fits_int64_def)
  have "qe1 = \<lparr>QuotaError.Code = ErrQuotaExceeded, Message = '''', StatusCode = 402,
        Plan = ''free'', Current = 5, Limit = 5, QuotaType = ''assets''\<rparr>"
    using f1(1-5) word_of_sint [OF f1(6)] word_of_sint [OF f1(7)] by (cases qe1) simp
  with e1 have r1: "parseHTTPError (map_of [(?b1, ?r1)]) 402 ?b1
    = PtrQuotaError
       \<lparr>QuotaError.Code = ErrQuotaExceeded, Message = '''', StatusCode = 402,
        Plan = ''free'', Current = 5, Limit = 5, QuotaType = ''assets''\<rparr>"
    by simp
  from quota_error_fields [of "map_of [(?b2, ?r2)]" ?b2 ?r2 429] p2 q2
  obtain qe2 where e2: "parseHTTPError (map_of [(?b2, ?r2)]) 429 ?b2 = PtrQuotaError qe2"
    and f2: "QuotaError.Code qe2 = ErrQuotaExceeded" "QuotaError.Message qe2 = ''over''"
      "QuotaError.StatusCode qe2 = 429" "Plan qe2 = ''''" "QuotaType qe2 = ''''"
      "sint (Current qe2) = 7" "sint (Limit qe2) = 0"
    by (auto simp: preferred_message_def string_field_def integer_field_def tr fits_int64_def)
  have "qe2 = \<lparr>QuotaError.Code = ErrQuotaExceeded, Message = ''over'', StatusCode = 429,
        Plan = '''', Current = 7, Limit = 0, QuotaType = ''''\<rparr>"
    using f2(1-5) word_of_sint [OF f2(6)] word_of_sint [OF f2(7)] by (cases qe2) simp
  with e2 have r2: "parseHTTPError (map_of [(?b2, ?r2)]) 429 ?b2
    = PtrQuotaError
       \<lparr>QuotaError.Code = ErrQuotaExceeded, Message = ''over'', StatusCode = 429,
        Plan = '''', Current = 7, Limit = 0, QuotaType = ''''\<rparr>"
    by simp
  show ?thesis
    using p1 q1 r1 p2 q2 r2 by simp
qed

text \<open>
  Claim C6. When the failure is not resolved as a quota-code match, the kind follows the
  status (401 unauthorized, 403 forbidden, 404 not found, 400 bad request, 402 quota
  exceeded, any other status internal server), and the default message of the kind is the
  message exactly when no message was extracted from the body.
\<close>

theorem generic_kind_and_message:
  assumes "\<not> resolved_as_quota U body"
  shows "parseHTTPError U st body =
     PtrError
       \<lparr>Error.Code = kind_of_status st,
        Message = (if extracted_message U body = '''' then default_message st
                   else extracted_message U body),
        StatusCode = st,
        Details = (case U body of Some r \<Rightarrow> errResp.Details r | None \<Rightarrow> None),
        Cause = None\<rparr>"
proof (cases "U body")
  case None
  then show ?thesis
    by (simp add: parseHTTPError_def parseErrorBody_None setErrorCode_eq extracted_message_def)
next
  case (Some r)
  with assms have "\<not> quota_code (errResp.Code r)"
    by (simp add: resolved_as_quota_def)
  with Some show ?thesis
    by (simp add: parseHTTPError_def parseErrorBody_generic setErrorCode_eq extracted_message_def)
qed

theorem generic_kind_and_message_witness:
  "\<not> resolved_as_quota
       (map_of [(''{}'', \<lparr>errResp.Message = '''', Error = '''', Code = '''', Details = None\<rparr>)])
       ''{}''
   \<and> parseHTTPError
       (map_of [(''{}'', \<lparr>errResp.Message = '''', Error = '''', Code = '''', Details = None\<rparr>)])
       404 ''{}''
     = PtrError \<lparr>Error.Code = ErrNotFound, Message = ''not found'', StatusCode = 404,
                 Details = None, Cause = None\<rparr>
   \<and> parseHTTPError
       (map_of [(''{}'', \<lparr>errResp.Message = '''', Error = '''', Code = '''', Details = None\<rparr>)])
       503 ''{}''
     = PtrError \<lparr>Error.Code = ErrInternalServer, Message = ''server error: 503'',
                 StatusCode = 503, Details = None, Cause = None\<rparr>"
proof -
  let ?U = "map_of [(''{}'', \<lparr>errResp.Message = '''', Error = '''', Code = '''', Details = None\<rparr>)]"
  have h: "\<not> resolved_as_quota ?U ''{}''"
    by (simp add: resolved_as_quota_def quota_code_def)
  show ?thesis
    using h generic_kind_and_message [OF h, of 404] generic_kind_and_message [OF h, of 503]
    by (simp add: kind_of_status_def default_message_def extracted_message_def
          preferred_message_def Sprintf_d_def)
qed

text \<open>
  Claim C7. The classifier returns one error value, which is the quota variant if and only
  if the body parses with a \<^verbatim>\<open>code\<close> among the three quota codes; a 402 without such a
  code is the generic error of kind quota exceeded.
\<close>

theorem quota_variant_iff_code:
  "(is_QuotaError (parseHTTPError U st body) \<longleftrightarrow> resolved_as_quota U body)
   \<and> (st = 402 \<and> \<not> resolved_as_quota U body \<longrightarrow>
        (\<exists>e. parseHTTPError U st body = PtrError e \<and> Error.Code e = ErrQuotaExceeded))"
proof (cases "U body")
  case None
  then show ?thesis
    by (simp add: parseHTTPError_def parseErrorBody_None setErrorCode_eq resolved_as_quota_def
          kind_of_status_def)
next
  case (Some r)
  show ?thesis
  proof (cases "quota_code (errResp.Code r)")
    case True
    with Some show ?thesis
      using parseErrorBody_quota [of U body r st]
      by (simp add: parseHTTPError_def resolved_as_quota_def)
  next
    case False
    with Some show ?thesis
      by (simp add: parseHTTPError_def parseErrorBody_generic setErrorCode_eq
            resolved_as_quota_def kind_of_status_def)
  qed
qed

theorem quota_variant_iff_code_witness:
  \<open>(402::int) = 402
   \<and> \<not> resolved_as_quota
       (map_of [(''{"message":"payment required"}'',
                 \<lparr>errResp.Message = ''payment required'', Error = '''', Code = '''',
                  Details = None\<rparr>)])
       ''{"message":"payment required"}''
   \<and> parseHTTPError
       (map_of [(''{"message":"payment required"}'',
                 \<lparr>errResp.Message = ''payment required'', Error = '''', Code = '''',
                  Details = None\<rparr>)])
       402 ''{"message":"payment required"}''
     = PtrError \<lparr>Error.Code = ErrQuotaExceeded, Message = ''payment required'',
                 StatusCode = 402, Details = None, Cause = None\<rparr>
   \<and> \<not> is_QuotaError
       (parseHTTPError
         (map_of [(''{"message":"payment required"}'',
                 \<lparr>errResp.Message = ''payment required'', Error = '''', Code = '''',
                  Details = None\<rparr>)])
         402 ''{"message":"payment required"}'')\<close>
proof -
  let ?body = \<open>''{"message":"payment required"}''\<close>
  let ?U = "map_of [(?body, \<lparr>errResp.Message = ''payment required'', Error = '''', Code = '''',
                  Details = None\<rparr>)]"
  have h: "\<not> resolved_as_quota ?U ?body"
    by (simp add: resolved_as_quota_def quota_code_def)
  have e: "parseHTTPError ?U 402 ?body
     = PtrError \<lparr>Error.Code = ErrQuotaExceeded, Message = ''payment required'',
                 StatusCode = 402, Details = None, Cause = None\<rparr>"
    by (simp add: parseHTTPError_def parseErrorBody_def setErrorCode_def Let_def)
  show ?thesis
    using h e quota_variant_iff_code [of ?U 402 ?body] by simp
qed

text \<open>
  Claim C8. A body that does not parse makes no failure of the classifier: when it is not
  empty its raw text is the message, when it is empty the default of the status is. When
  the body parses, \<^verbatim>\<open>message\<close> wins over \<^verbatim>\<open>error\<close>, and a blank message of the generic
  error is filled by the default of the status.
\<close>

theorem message_from_body:
  "(U body = None \<longrightarrow>
      parseHTTPError U st body =
        PtrError \<lparr>Error.Code = kind_of_status st,
                  Message = (if body \<noteq> '''' then body else default_message st),
                  StatusCode = st, Details = None, Cause = None\<rparr>)
   \<and> (\<forall>r. U body = Some r \<longrightarrow>
        error_Message (parseHTTPError U st body) =
          (if preferred_message r = '''' \<and> \<not> quota_code (errResp.Code r)
           then default_message st else preferred_message r))"
proof (intro conjI allI impI)
  assume "U body = None"
  then show "parseHTTPError U st body =
        PtrError \<lparr>Error.Code = kind_of_status st,
                  Message = (if body \<noteq> '''' then body else default_message st),
                  StatusCode = st, Details = None, Cause = None\<rparr>"
    by (simp add: parseHTTPError_def parseErrorBody_None setErrorCode_eq)
next
  fix r assume r: "U body = Some r"
  show "error_Message (parseHTTPError U st body) =
          (if preferred_message r = '''' \<and> \<not> quota_code (errResp.Code r)
           then default_message st else preferred_message r)"
  proof (cases "quota_code (errResp.Code r)")
    case True
    with r show ?thesis
      using parseErrorBody_quota [of U body r st] by (simp add: parseHTTPError_def)
  next
    case False
    with r show ?thesis
      by (simp add: parseHTTPError_def parseErrorBody_generic setErrorCode_eq)
  qed
qed

theorem message_from_body_witness:
  \<open>map_of [(''{"error":"boom"}'',
             \<lparr>errResp.Message = '''', Error = ''boom'', Code = '''', Details = None\<rparr>)]
      ''<html>Bad Gateway</html>'' = None
   \<and> parseHTTPError
        (map_of [(''{"error":"boom"}'',
             \<lparr>errResp.Message = '''', Error = ''boom'', Code = '''', Details = None\<rparr>)])
        502 ''<html>Bad Gateway</html>''
      = PtrError \<lparr>Error.Code = ErrInternalServer, Message = ''<html>Bad Gateway</html>'',
                  StatusCode = 502, Details = None, Cause = None\<rparr>
   \<and> map_of [(''{"error":"boom"}'',
             \<lparr>errResp.Message = '''', Error = ''boom'', Code = '''', Details = None\<rparr>)]
      '''' = None
   \<and> parseHTTPError
        (map_of [(''{"error":"boom"}'',
             \<lparr>errResp.Message = '''', Error = ''boom'', Code = '''', Details = None\<rparr>)])
        401 ''''
      = PtrError \<lparr>Error.Code = ErrUnauthorized, Message = ''unauthorized'',
                  StatusCode = 401, Details = None, Cause = None\<rparr>
   \<and> map_of [(''{"error":"boom"}'',
             \<lparr>errResp.Message = '''', Error = ''boom'', Code = '''', Details = None\<rparr>)]
      ''{"error":"boom"}''
      = Some \<lparr>errResp.Message = '''', Error = ''boom'', Code = '''', Details = None\<rparr>
   \<and> error_Message
        (parseHTTPError
          (map_of [(''{"error":"boom"}'',
             \<lparr>errResp.Message = '''', Error = ''boom'', Code = '''', Details = None\<rparr>)])
          500 ''{"error":"boom"}'') = ''boom''\<close>
proof -
  let ?r = "\<lparr>errResp.Message = '''', Error = ''boom'', Code = '''', Details = None\<rparr>"
  let ?U = \<open>map_of [(''{"error":"boom"}'', ?r)]\<close>
  have h1: "?U ''<html>Bad Gateway</html>'' = None" by simp
  have h2: "?U '''' = None" by simp
  have h3: \<open>?U ''{"error":"boom"}'' = Some ?r\<close> by simp
  show ?thesis
    using h1 h2 h3
      message_from_body [of ?U "''<html>Bad Gateway</html>''" 502]
      message_from_body [of ?U "''''" 401]
      message_from_body [of ?U \<open>''{"error":"boom"}''\<close> 500]
    by (simp add: kind_of_status_def default_message_def preferred_message_def quota_code_def)
qed


section \<open>The retry loop: proofs\<close>

subsection \<open>Signed comparison of small counters\<close>

lemma sint_of_nat_small:
  "i < 2 ^ 63 \<Longrightarrow> sint (word_of_nat i :: 64 word) = int i"
  by (simp add: signed_of_nat signed_take_bit_int_eq_self)

lemma sle_of_nat:
  "i < 2 ^ 63 \<Longrightarrow> n < 2 ^ 63 \<Longrightarrow> ((word_of_nat i :: 64 word) \<le>s word_of_nat n) = (i \<le> n)"
  by (simp add: word_sle_eq sint_of_nat_small)

lemma sless_0_of_nat:
  "i < 2 ^ 63 \<Longrightarrow> ((0 :: 64 word) <s word_of_nat i) = (0 < i)"
  using sint_of_nat_small [of i] by (simp add: word_sless_alt)

subsection \<open>Steps of the loop\<close>

lemma executeRequest_outcome:
  "executeRequest L E c method path body result w =
     (fst (attempt_outcome L E c method path body result (length (requests w))),
      snd (attempt_outcome L E c method path body result (length (requests w))),
      w\<lparr>attempts := Suc (attempts w),
        requests := requests w @ sent L c method path body\<rparr>)"
  by (simp add: executeRequest_def attempt_outcome_def sent_def Let_def
        split: sum.splits prod.splits)

lemma world_update_order:
  "w\<lparr>sleeps := s, attempts := a, requests := r\<rparr> = w\<lparr>attempts := a, requests := r, sleeps := s\<rparr>"
  by (cases w) simp

lemma loop_retry_step:
  assumes M: "maxRetries c = word_of_nat n" and n: "n < 2 ^ 63 - 1" and i: "i \<le> n"
    and nocancel: "0 < i \<Longrightarrow> ctx_Done E (attempts w) = None"
    and out: "attempt_outcome L E c method path body result (length (requests w)) = (Some err, result')"
    and retry: "\<not> isClientError err"
  shows "doRequest_loop L E c method path body result (word_of_nat i) lastErr w =
         doRequest_loop L E c method path body result' (word_of_nat (Suc i)) (Some err)
           (after_attempts L c method path body i 1 w)"
proof -
  have i63: "i < 2 ^ 63" and n63: "n < 2 ^ 63" using n i by simp_all
  have le: "(word_of_nat i :: 64 word) \<le>s maxRetries c"
    using i by (simp add: M sle_of_nat [OF i63 n63])
  show ?thesis
  proof (cases "0 < i")
    case True
    then have pos: "(0 :: 64 word) <s word_of_nat i" by (simp add: sless_0_of_nat [OF i63])
    show ?thesis
      apply (subst doRequest_loop.simps)
      using True nocancel [OF True] out retry
      apply (simp add: le pos executeRequest_outcome after_attempts_def backoffs_def
               world_update_order add.commute)
      done
  next
    case False
    then have i0: "i = 0" by simp
    show ?thesis
      apply (subst doRequest_loop.simps)
      using out retry le
      apply (simp add: i0 executeRequest_outcome after_attempts_def backoffs_def)
      done
  qed
qed

lemma backoffs_Suc:
  "backoffs c i (Suc k) = (if 0 < i then [retryWait c * word_of_nat i] else []) @ backoffs c (Suc i) k"
proof -
  have "[i..<i + Suc k] = i # [Suc i..<Suc i + k]"
    using upt_conv_Cons [of i "i + Suc k"] by simp
  then show ?thesis
    unfolding backoffs_def by (simp del: upt_Suc)
qed

lemma backoffs_0 [simp]: "backoffs c i 0 = []"
  by (simp add: backoffs_def)

lemma after_attempts_Suc:
  "after_attempts L c method path body (Suc i) k (after_attempts L c method path body i (Suc 0) w) =
   after_attempts L c method path body i (Suc k) w"
  by (simp add: after_attempts_def backoffs_Suc)

lemma after_attempts_0: "after_attempts L c method path body i 0 w = w"
  by (simp add: after_attempts_def backoffs_def)

lemma attempts_after [simp]:
  "attempts (after_attempts L c method path body i k w) = attempts w + k"
  by (simp add: after_attempts_def)

lemma length_requests_after [simp]:
  "length (requests (after_attempts L c method path body i k w)) =
     length (requests w) + k * length (sent L c method path body)"
  by (simp add: after_attempts_def length_concat sum_list_replicate)

lemma loop_retry_steps:
  assumes M: "maxRetries c = word_of_nat n" and n: "n < 2 ^ 63 - 1"
  shows "i + k \<le> Suc n \<Longrightarrow> 0 < k \<Longrightarrow>
    (\<forall>j<k. (0 < i + j \<longrightarrow> ctx_Done E (attempts w + j) = None) \<and>
       (\<exists>err. attempt_outcome L E c method path body result
                 (length (requests w) + j * length (sent L c method path body)) = (Some err, result)
              \<and> \<not> isClientError err)) \<Longrightarrow>
    doRequest_loop L E c method path body result (word_of_nat i) lastErr w =
    doRequest_loop L E c method path body result (word_of_nat (i + k))
      (fst (attempt_outcome L E c method path body result
              (length (requests w) + (k - 1) * length (sent L c method path body))))
      (after_attempts L c method path body i k w)"
proof (induction k arbitrary: i lastErr w)
  case 0
  then show ?case by simp
next
  case (Suc k)
  from Suc.prems(3) [rule_format, of 0]
  obtain err where nc: "0 < i \<Longrightarrow> ctx_Done E (attempts w) = None"
    and out: "attempt_outcome L E c method path body result (length (requests w)) = (Some err, result)"
    and retry: "\<not> isClientError err"
    by auto
  have i: "i \<le> n" using Suc.prems(1) by simp
  have step: "doRequest_loop L E c method path body result (word_of_nat i) lastErr w =
         doRequest_loop L E c method path body result (word_of_nat (Suc i)) (Some err)
           (after_attempts L c method path body i 1 w)"
    by (rule loop_retry_step [OF M n i nc out retry])
  show ?case
  proof (cases "k = 0")
    case True
    with step out show ?thesis by simp
  next
    case False
    let ?w1 = "after_attempts L c method path body i 1 w"
    have hyp: "\<forall>j<k. (0 < Suc i + j \<longrightarrow> ctx_Done E (attempts ?w1 + j) = None) \<and>
       (\<exists>err. attempt_outcome L E c method path body result
                 (length (requests ?w1) + j * length (sent L c method path body)) = (Some err, result)
              \<and> \<not> isClientError err)"
    proof (intro allI impI)
      fix j assume "j < k"
      then have "Suc j < Suc k" by simp
      from Suc.prems(3) [rule_format, OF this]
      show "(0 < Suc i + j \<longrightarrow> ctx_Done E (attempts ?w1 + j) = None) \<and>
       (\<exists>err. attempt_outcome L E c method path body result
                 (length (requests ?w1) + j * length (sent L c method path body)) = (Some err, result)
              \<and> \<not> isClientError err)"
        by (simp add: add.commute add.left_commute)
    qed
    have "doRequest_loop L E c method path body result (word_of_nat (Suc i)) (Some err) ?w1 =
      doRequest_loop L E c method path body result (word_of_nat (Suc i + k))
      (fst (attempt_outcome L E c method path body result
              (length (requests ?w1) + (k - 1) * length (sent L c method path body))))
      (after_attempts L c method path body (Suc i) k ?w1)"
      using Suc.IH [of "Suc i" ?w1 "Some err"] Suc.prems(1) False hyp by simp
    moreover have "length (requests ?w1) + (k - 1) * length (sent L c method path body) =
        length (requests w) + (Suc k - 1) * length (sent L c method path body)"
      using False by (cases k) simp_all
    moreover have "after_attempts L c method path body (Suc i) k ?w1 =
        after_attempts L c method path body i (Suc k) w"
      using after_attempts_Suc [of L c "method" path body i k w] by simp
    moreover have "Suc i + k = i + Suc k" by simp
    ultimately show ?thesis using step by (simp only:)
  qed
qed

lemma loop_exit:
  assumes M: "maxRetries c = word_of_nat n" and n: "n < 2 ^ 63 - 1"
  shows "doRequest_loop L E c method path body result (word_of_nat (Suc n)) lastErr w =
         Some (lastErr, result, w)"
proof -
  have "\<not> (word_of_nat (Suc n) :: 64 word) \<le>s word_of_nat n"
    using n by (subst sle_of_nat) simp_all
  then show ?thesis
    by (subst doRequest_loop.simps) (simp add: M del: of_nat_Suc)
qed

lemma maxRetries_of_nat:
  assumes "0 \<le> sint (M :: 64 word)"
  shows "M = word_of_nat (nat (sint M))"
proof -
  have "(word_of_nat (nat (sint M)) :: 64 word) = word_of_int (sint M)"
    using assms by (rule of_nat_nat)
  then show ?thesis by simp
qed

lemma doRequest_all_retried:
  assumes lo: "0 \<le> sint (maxRetries c)" and hi: "sint (maxRetries c) < 2 ^ 63 - 1"
    and nocancel: "\<forall>j. ctx_Done E j = None"
    and out: "\<forall>j. \<exists>err. attempt_outcome L E c method path body result
                 (j * length (sent L c method path body)) = (Some err, result)
              \<and> \<not> isClientError err"
  shows "doRequest L E c method path body result world0 =
    Some (fst (attempt_outcome L E c method path body result
                (nat (sint (maxRetries c)) * length (sent L c method path body))),
          result,
          after_attempts L c method path body 0 (Suc (nat (sint (maxRetries c)))) world0)"
proof -
  let ?n = "nat (sint (maxRetries c))"
  have M: "maxRetries c = word_of_nat ?n" by (rule maxRetries_of_nat [OF lo])
  have n: "?n < 2 ^ 63 - 1" using lo hi by simp
  have "doRequest_loop L E c method path body result (word_of_nat 0) None world0 =
    doRequest_loop L E c method path body result (word_of_nat (0 + Suc ?n))
      (fst (attempt_outcome L E c method path body result
              (length (requests world0) + (Suc ?n - 1) * length (sent L c method path body))))
      (after_attempts L c method path body 0 (Suc ?n) world0)"
    by (rule loop_retry_steps [OF M n]) (use nocancel out in \<open>simp_all add: world0_def\<close>)
  then show ?thesis
    by (simp add: doRequest_def loop_exit [OF M n] world0_def del: of_nat_Suc)
qed

lemma backoffs_from_0: "backoffs c 0 (Suc k) = map (\<lambda>a. retryWait c * word_of_nat a) [1..<Suc k]"
proof -
  have "filter (\<lambda>a. 0 < a) [0..<Suc k] = [1..<Suc k]"
    by (subst upt_rec) (simp add: filter_id_conv del: upt_Suc)
  then show ?thesis by (simp add: backoffs_def del: upt_Suc)
qed

lemma parseHTTPError_not_client:
  "500 \<le> st \<Longrightarrow> \<not> isClientError (parseHTTPError U st body)"
  by (simp add: parseHTTPError_def setErrorCode_def parseErrorBody_def Let_def
        split: sum.splits option.splits if_splits)

lemma handleResponse_retryable:
  assumes "retryable nr"
  shows "\<exists>err. handleResponse L nr result = (Some err, result) \<and> \<not> isClientError err"
proof (cases nr)
  case (DoFailed e)
  then show ?thesis by (simp add: handleResponse_def)
next
  case (ReadFailed st e)
  then show ?thesis by (simp add: handleResponse_def)
next
  case (Response st b)
  with assms have "500 \<le> st" by simp
  with Response show ?thesis
    by (simp add: handleResponse_def parseHTTPError_not_client)
qed

lemma concat_replicate_single: "concat (replicate k [x]) = replicate k x"
  by (induction k) simp_all

lemma after_attempts_world0:
  "after_attempts L c method path body 0 (Suc k) world0 =
     \<lparr>attempts = Suc k,
      requests = concat (replicate (Suc k) (sent L c method path body)),
      sleeps = map (\<lambda>a. retryWait c * word_of_nat a) [1..<Suc k]\<rparr>"
  unfolding after_attempts_def backoffs_from_0 by (simp add: world0_def)


lemma example_bounds:
  "0 \<le> sint (maxRetries example_transport)" "sint (maxRetries example_transport) < 2 ^ 63 - 1"
  "nat (sint (maxRetries example_transport)) = 3"
  by (simp_all add: example_transport_def newHTTPClient_def)

lemma example_build:
  "buildRequest example_stdlib example_transport method ''/layouts'' None
     = Inr (example_request method None)"
  by (simp add: buildRequest_def example_stdlib_def example_transport_def newHTTPClient_def
        TrimSuffix_def example_request_def)

lemma example_waits:
  "map (\<lambda>a. retryWait example_transport * word_of_nat a) [Suc 0..<4]
     = [1000000000, 2000000000, 3000000000]"
  by (simp add: example_transport_def newHTTPClient_def time_Second_def upt_rec)


lemma loop_return_step:
  assumes M: "maxRetries c = word_of_nat n" and n: "n < 2 ^ 63 - 1" and i: "i \<le> n"
    and nocancel: "0 < i \<Longrightarrow> ctx_Done E (attempts w) = None"
    and out: "attempt_outcome L E c method path body result (length (requests w)) = (oe, result')"
    and final: "case oe of None \<Rightarrow> True | Some err \<Rightarrow> isClientError err"
  shows "doRequest_loop L E c method path body result (word_of_nat i) lastErr w =
         Some (oe, result', after_attempts L c method path body i 1 w)"
proof -
  have i63: "i < 2 ^ 63" and n63: "n < 2 ^ 63" using n i by simp_all
  have le: "(word_of_nat i :: 64 word) \<le>s maxRetries c"
    using i by (simp add: M sle_of_nat [OF i63 n63])
  show ?thesis
  proof (cases "0 < i")
    case True
    then have pos: "(0 :: 64 word) <s word_of_nat i" by (simp add: sless_0_of_nat [OF i63])
    show ?thesis
      apply (subst doRequest_loop.simps)
      using True nocancel [OF True] out final
      apply (simp add: le pos executeRequest_outcome after_attempts_def backoffs_def
               world_update_order split: option.splits)
      done
  next
    case False
    then have i0: "i = 0" by simp
    show ?thesis
      apply (subst doRequest_loop.simps)
      using out final le
      apply (simp add: i0 executeRequest_outcome after_attempts_def backoffs_def
               split: option.splits)
      done
  qed
qed

lemma loop_cancel_step:
  assumes pos: "0 <s attempt" and le: "attempt \<le>s maxRetries c"
    and cancel: "ctx_Done E (attempts w) = Some cerr"
  shows "doRequest_loop L E c method path body result attempt lastErr w =
         Some (Some (PtrError \<lparr>Error.Code = ErrTimeout, Message = ''request cancelled'',
                                StatusCode = 0, Details = None, Cause = Some cerr\<rparr>),
               result, w)"
  by (subst doRequest_loop.simps) (simp add: pos le cancel)

lemma example_world:
  "after_attempts L example_transport method path body 0 4 world0 =
     \<lparr>attempts = 4,
      requests = concat (replicate 4 (sent L example_transport method path body)),
      sleeps = [1000000000, 2000000000, 3000000000]\<rparr>"
proof -
  have "after_attempts L example_transport method path body 0 (Suc 3) world0 =
     \<lparr>attempts = Suc 3,
      requests = concat (replicate (Suc 3) (sent L example_transport method path body)),
      sleeps = map (\<lambda>a. retryWait example_transport * word_of_nat a) [1..<Suc 3]\<rparr>"
    by (rule after_attempts_world0)
  moreover have "Suc 3 = 4" by simp
  moreover have "[1..<4] = [Suc 0..<4]" by simp
  ultimately show ?thesis by (simp only: example_waits)
qed

text \<open>
  Claim C1. An attempt whose error has a status in \<open>[400, 500)\<close>, the quota variant of a
  402 included, ends the call at once. The run below is the code against a server that
  answers every request with 402 and the code \<^verbatim>\<open>QUOTA_EXCEEDED\<close>: the classifier returns a
  \<^verbatim>\<open>*QuotaError\<close>, the test of \<^verbatim>\<open>doRequest\<close> asks for a \<^verbatim>\<open>*Error\<close>, and the call makes
  all four attempts, with the three waits, before it returns the quota error.
\<close>

theorem quota_error_is_retried:
  "doRequest example_stdlib (example_server 402 quota_body) example_transport
     ''GET'' ''/layouts'' None None world0
   = Some (Some (PtrQuotaError
                  \<lparr>QuotaError.Code = ErrQuotaExceeded, Message = ''asset quota reached'',
                   StatusCode = 402, Plan = '''', Current = 0, Limit = 0, QuotaType = ''''\<rparr>),
           None,
           \<lparr>attempts = 4, requests = replicate 4 (example_request ''GET'' None),
            sleeps = [1000000000, 2000000000, 3000000000]\<rparr>)"
proof -
  let ?E = "example_server 402 quota_body"
  have s: "sent example_stdlib example_transport ''GET'' ''/layouts'' None
             = [example_request ''GET'' None]"
    by (simp add: sent_def example_build)
  have o: "attempt_outcome example_stdlib ?E example_transport ''GET'' ''/layouts'' None
             (None :: string option) k
           = (Some (PtrQuotaError
                  \<lparr>QuotaError.Code = ErrQuotaExceeded, Message = ''asset quota reached'',
                   StatusCode = 402, Plan = '''', Current = 0, Limit = 0, QuotaType = ''''\<rparr>),
              None)" for k
    unfolding attempt_outcome_def example_build
    by (simp add: example_server_def handleResponse_def example_stdlib_def parseHTTPError_def
          parseErrorBody_def Let_def)
  have ctx: "\<forall>j. ctx_Done ?E j = None" by (simp add: example_server_def)
  have out: "\<forall>j. \<exists>err. attempt_outcome example_stdlib ?E example_transport ''GET'' ''/layouts''
                 None (None :: string option)
                 (j * length (sent example_stdlib example_transport ''GET'' ''/layouts'' None))
               = (Some err, None) \<and> \<not> isClientError err"
    by (simp add: o)
  from doRequest_all_retried [OF example_bounds(1,2) ctx out]
  show ?thesis
    by (simp add: example_bounds(3) o s example_world concat_replicate_single
          del: replicate_Suc upt_Suc)
qed






lemma backoffs_snoc:
  "backoffs c i (Suc k) =
     backoffs c i k @ (if 0 < i + k then [retryWait c * word_of_nat (i + k)] else [])"
  by (simp add: backoffs_def)

lemma concat_replicate_comm: "concat (replicate k xs) @ xs = xs @ concat (replicate k xs)"
  by (induction k) simp_all

lemma after_attempts_snoc:
  "after_attempts L c method path body (i + k) (Suc 0) (after_attempts L c method path body i k w) =
   after_attempts L c method path body i (Suc k) w"
  by (simp add: after_attempts_def backoffs_snoc concat_replicate_comm)

lemma doRequest_after_failures:
  assumes M: "maxRetries c = word_of_nat n" and n: "n < 2 ^ 63 - 1" and k: "k \<le> Suc n"
    and build: "buildRequest L c method path body = Inr req"
    and net: "\<forall>j<k. retryable (client_Do E (client c) j req)"
    and ctx: "\<forall>j<k. 0 < j \<longrightarrow> ctx_Done E j = None"
  shows "\<exists>lastErr. doRequest L E c method path body result world0 =
           doRequest_loop L E c method path body result (word_of_nat k) lastErr
             (after_attempts L c method path body 0 k world0)"
proof (cases "k = 0")
  case True
  then show ?thesis by (auto simp: doRequest_def after_attempts_0 intro: exI [of _ None])
next
  case False
  have s: "sent L c method path body = [req]" by (simp add: sent_def build)
  have o: "attempt_outcome L E c method path body result j =
             handleResponse L (client_Do E (client c) j req) result" for j
    by (simp add: attempt_outcome_def build)
  have hyp: "\<forall>j<k. (0 < 0 + j \<longrightarrow> ctx_Done E (attempts world0 + j) = None) \<and>
       (\<exists>err. attempt_outcome L E c method path body result
                 (length (requests world0) + j * length (sent L c method path body))
               = (Some err, result)
              \<and> \<not> isClientError err)"
  proof (intro allI impI)
    fix j assume j: "j < k"
    with net have "retryable (client_Do E (client c) j req)" by simp
    from handleResponse_retryable [OF this, of L result] ctx j
    show "(0 < 0 + j \<longrightarrow> ctx_Done E (attempts world0 + j) = None) \<and>
       (\<exists>err. attempt_outcome L E c method path body result
                 (length (requests world0) + j * length (sent L c method path body))
               = (Some err, result)
              \<and> \<not> isClientError err)"
      by (simp add: s o world0_def)
  qed
  have "doRequest_loop L E c method path body result (word_of_nat 0) None world0 =
    doRequest_loop L E c method path body result (word_of_nat (0 + k))
      (fst (attempt_outcome L E c method path body result
              (length (requests world0) + (k - 1) * length (sent L c method path body))))
      (after_attempts L c method path body 0 k world0)"
    by (rule loop_retry_steps [OF M n _ _ hyp]) (use k False in simp_all)
  then show ?thesis by (auto simp: doRequest_def)
qed

lemma after_attempts_world0_req:
  assumes "buildRequest L c method path body = Inr req"
  shows "after_attempts L c method path body 0 k world0 =
     \<lparr>attempts = k, requests = replicate k req,
      sleeps = map (\<lambda>a. retryWait c * word_of_nat a) [1..<k]\<rparr>"
proof (cases k)
  case 0
  then show ?thesis by (simp add: after_attempts_0 world0_def)
next
  case (Suc k')
  have s: "sent L c method path body = [req]" by (simp add: sent_def assms)
  show ?thesis
    unfolding Suc after_attempts_world0 s concat_replicate_single ..
qed

lemma bounds_of_nat:
  assumes lo: "0 \<le> sint (M :: 64 word)" and hi: "sint M < 2 ^ 63 - 1"
  shows "M = word_of_nat (nat (sint M))" and "nat (sint M) < 2 ^ 63 - 1"
  using maxRetries_of_nat [OF lo] lo hi by simp_all

text \<open>
  Claim C4. When the context is cancelled during the wait that precedes an attempt, the
  call returns at once an error of kind timeout whose cause is the error of the context,
  with no further attempt and without the wait having run to its end: from any state of
  the loop, and for a call whose earlier attempts met retryable answers of the network.
\<close>

theorem cancelled_during_backoff:
  "(0 <s attempt \<and> attempt \<le>s maxRetries c \<and> ctx_Done E (attempts w) = Some cerr \<longrightarrow>
      doRequest_loop L E c method path body result attempt lastErr w
      = Some (Some (PtrError \<lparr>Error.Code = ErrTimeout, Message = ''request cancelled'',
                               StatusCode = 0, Details = None, Cause = Some cerr\<rparr>),
              result, w))
   \<and> (0 \<le> sint (maxRetries c) \<and> sint (maxRetries c) < 2 ^ 63 - 1
        \<and> buildRequest L c method path body = Inr req
        \<and> 0 < a \<and> a \<le> nat (sint (maxRetries c))
        \<and> (\<forall>k<a. retryable (client_Do E (client c) k req))
        \<and> (\<forall>k<a. 0 < k \<longrightarrow> ctx_Done E k = None)
        \<and> ctx_Done E a = Some cerr \<longrightarrow>
      doRequest L E c method path body result world0
      = Some (Some (PtrError \<lparr>Error.Code = ErrTimeout, Message = ''request cancelled'',
                               StatusCode = 0, Details = None, Cause = Some cerr\<rparr>),
              result,
              \<lparr>attempts = a, requests = replicate a req,
               sleeps = map (\<lambda>i. retryWait c * word_of_nat i) [1..<a]\<rparr>))"
proof (intro conjI impI)
  assume "0 <s attempt \<and> attempt \<le>s maxRetries c \<and> ctx_Done E (attempts w) = Some cerr"
  then show "doRequest_loop L E c method path body result attempt lastErr w
      = Some (Some (PtrError \<lparr>Error.Code = ErrTimeout, Message = ''request cancelled'',
                               StatusCode = 0, Details = None, Cause = Some cerr\<rparr>),
              result, w)"
    using loop_cancel_step by blast
next
  let ?n = "nat (sint (maxRetries c))"
  assume h: "0 \<le> sint (maxRetries c) \<and> sint (maxRetries c) < 2 ^ 63 - 1
        \<and> buildRequest L c method path body = Inr req
        \<and> 0 < a \<and> a \<le> nat (sint (maxRetries c))
        \<and> (\<forall>k<a. retryable (client_Do E (client c) k req))
        \<and> (\<forall>k<a. 0 < k \<longrightarrow> ctx_Done E k = None)
        \<and> ctx_Done E a = Some cerr"
  then have M: "maxRetries c = word_of_nat ?n" and n: "?n < 2 ^ 63 - 1"
    using bounds_of_nat by blast+
  from h have build: "buildRequest L c method path body = Inr req"
    and a: "0 < a" "a \<le> ?n"
    and net: "\<forall>k<a. retryable (client_Do E (client c) k req)"
    and ctx: "\<forall>k<a. 0 < k \<longrightarrow> ctx_Done E k = None"
    and cancel: "ctx_Done E a = Some cerr"
    by simp_all
  let ?w = "after_attempts L c method path body 0 a world0"
  have w: "?w = \<lparr>attempts = a, requests = replicate a req,
               sleeps = map (\<lambda>i. retryWait c * word_of_nat i) [1..<a]\<rparr>"
    by (rule after_attempts_world0_req [OF build])
  from a have "a \<le> Suc ?n" by simp
  from doRequest_after_failures [OF M n this build net ctx]
  obtain lastErr where l: "doRequest L E c method path body result world0 =
           doRequest_loop L E c method path body result (word_of_nat a) lastErr ?w"
    by blast
  have a63: "a < 2 ^ 63" and n63: "?n < 2 ^ 63" using n a by simp_all
  have pos: "(0 :: 64 word) <s word_of_nat a" using a by (simp add: sless_0_of_nat [OF a63])
  have "(word_of_nat a :: 64 word) \<le>s word_of_nat ?n"
    by (rule sle_of_nat [OF a63 n63, THEN iffD2, OF a(2)])
  then have le: "(word_of_nat a :: 64 word) \<le>s maxRetries c" by (subst M)
  have c: "ctx_Done E (attempts ?w) = Some cerr" using cancel by (simp add: w)
  have "doRequest L E c method path body result world0
      = Some (Some (PtrError \<lparr>Error.Code = ErrTimeout, Message = ''request cancelled'',
                               StatusCode = 0, Details = None, Cause = Some cerr\<rparr>),
              result, ?w)"
    using l loop_cancel_step [OF pos le c, of L "method" path body result lastErr]
    by (rule trans)
  then show "doRequest L E c method path body result world0
      = Some (Some (PtrError \<lparr>Error.Code = ErrTimeout, Message = ''request cancelled'',
                               StatusCode = 0, Details = None, Cause = Some cerr\<rparr>),
              result,
              \<lparr>attempts = a, requests = replicate a req,
               sleeps = map (\<lambda>i. retryWait c * word_of_nat i) [1..<a]\<rparr>)"
    by (simp only: w)
qed

text \<open>
  Claim C9. A response with a status below 400 and an empty body, given to a destination
  that is not nil, is no error and leaves the destination as it was; nothing is decoded
  either into a nil destination. For the call: when such a response comes, at once or
  after retryable answers of the network, the call returns no error and the destination
  is unmodified.
\<close>

theorem empty_body_keeps_destination:
  "(st < 400 \<longrightarrow> handleResponse L (Response st '''') (Some v) = (None, Some v))
   \<and> (st < 400 \<longrightarrow> handleResponse L (Response st respBody) None = (None, None))
   \<and> (0 \<le> sint (maxRetries c) \<and> sint (maxRetries c) < 2 ^ 63 - 1
        \<and> buildRequest L c method path body = Inr req
        \<and> k \<le> nat (sint (maxRetries c))
        \<and> (\<forall>j<k. retryable (client_Do E (client c) j req))
        \<and> (\<forall>j\<le>k. 0 < j \<longrightarrow> ctx_Done E j = None)
        \<and> client_Do E (client c) k req = Response st '''' \<and> st < 400 \<longrightarrow>
      doRequest L E c method path body (Some v) world0
      = Some (None, Some v,
              \<lparr>attempts = k + 1, requests = replicate (k + 1) req,
               sleeps = map (\<lambda>i. retryWait c * word_of_nat i) [1..<k + 1]\<rparr>))"
proof (intro conjI impI)
  assume "st < 400"
  then show "handleResponse L (Response st '''') (Some v) = (None, Some v)"
    by (simp add: handleResponse_def)
next
  assume "st < 400"
  then show "handleResponse L (Response st respBody) None = (None, None)"
    by (simp add: handleResponse_def)
next
  let ?n = "nat (sint (maxRetries c))"
  assume h: "0 \<le> sint (maxRetries c) \<and> sint (maxRetries c) < 2 ^ 63 - 1
        \<and> buildRequest L c method path body = Inr req
        \<and> k \<le> nat (sint (maxRetries c))
        \<and> (\<forall>j<k. retryable (client_Do E (client c) j req))
        \<and> (\<forall>j\<le>k. 0 < j \<longrightarrow> ctx_Done E j = None)
        \<and> client_Do E (client c) k req = Response st '''' \<and> st < 400"
  then have M: "maxRetries c = word_of_nat ?n" and n: "?n < 2 ^ 63 - 1"
    using bounds_of_nat by blast+
  from h have build: "buildRequest L c method path body = Inr req"
    and k: "k \<le> ?n"
    and net: "\<forall>j<k. retryable (client_Do E (client c) j req)"
    and ctx: "\<forall>j<k. 0 < j \<longrightarrow> ctx_Done E j = None"
    and ctxk: "0 < k \<Longrightarrow> ctx_Done E k = None"
    and resp: "client_Do E (client c) k req = Response st ''''" and st: "st < 400"
    by simp_all
  let ?w = "after_attempts L c method path body 0 k world0"
  have w: "?w = \<lparr>attempts = k, requests = replicate k req,
               sleeps = map (\<lambda>i. retryWait c * word_of_nat i) [1..<k]\<rparr>"
    by (rule after_attempts_world0_req [OF build])
  from k have "k \<le> Suc ?n" by simp
  from doRequest_after_failures [OF M n this build net ctx]
  obtain lastErr where l: "doRequest L E c method path body (Some v) world0 =
           doRequest_loop L E c method path body (Some v) (word_of_nat k) lastErr ?w"
    by blast
  have nc: "0 < k \<Longrightarrow> ctx_Done E (attempts ?w) = None" using ctxk by (simp add: w)
  have out: "attempt_outcome L E c method path body (Some v) (length (requests ?w))
               = (None, Some v)"
    using resp st by (simp add: attempt_outcome_def build w handleResponse_def)
  have fin: "case (None :: error option) of None \<Rightarrow> True | Some err \<Rightarrow> isClientError err"
    by simp
  have "doRequest_loop L E c method path body (Some v) (word_of_nat k) lastErr ?w =
         Some (None, Some v, after_attempts L c method path body k 1 ?w)"
    by (rule loop_return_step [OF M n k nc out fin])
  moreover have "after_attempts L c method path body k 1 ?w =
      after_attempts L c method path body 0 (Suc k) world0"
    using after_attempts_snoc [of L c "method" path body 0 k world0] by simp
  moreover have "after_attempts L c method path body 0 (Suc k) world0 =
      \<lparr>attempts = Suc k, requests = replicate (Suc k) req,
       sleeps = map (\<lambda>i. retryWait c * word_of_nat i) [1..<Suc k]\<rparr>"
    by (rule after_attempts_world0_req [OF build])
  ultimately show "doRequest L E c method path body (Some v) world0
      = Some (None, Some v,
              \<lparr>attempts = k + 1, requests = replicate (k + 1) req,
               sleeps = map (\<lambda>i. retryWait c * word_of_nat i) [1..<k + 1]\<rparr>)"
    using l by simp
qed

theorem cancelled_during_backoff_witness:
  "0 <s (2 :: 64 word) \<and> 2 \<le>s maxRetries example_transport
   \<and> ctx_Done (example_cancelled 2) (attempts \<lparr>attempts = 2, requests = [], sleeps = []\<rparr>)
       = Some context_Canceled
   \<and> doRequest_loop example_stdlib (example_cancelled 2) example_transport
        ''GET'' ''/layouts'' None (None :: string option) 2 None
        \<lparr>attempts = 2, requests = [], sleeps = []\<rparr>
      = Some (Some (PtrError \<lparr>Error.Code = ErrTimeout, Message = ''request cancelled'',
                               StatusCode = 0, Details = None,
                               Cause = Some context_Canceled\<rparr>),
              None, \<lparr>attempts = 2, requests = [], sleeps = []\<rparr>)
   \<and> 0 \<le> sint (maxRetries example_transport)
   \<and> sint (maxRetries example_transport) < 2 ^ 63 - 1
   \<and> buildRequest example_stdlib example_transport ''GET'' ''/layouts'' None
       = Inr (example_request ''GET'' None)
   \<and> (0 :: nat) < 2 \<and> 2 \<le> nat (sint (maxRetries example_transport))
   \<and> retryable (client_Do (example_cancelled 2) (client example_transport) 0
                  (example_request ''GET'' None))
   \<and> retryable (client_Do (example_cancelled 2) (client example_transport) 1
                  (example_request ''GET'' None))
   \<and> ctx_Done (example_cancelled 2) 1 = None
   \<and> ctx_Done (example_cancelled 2) 2 = Some context_Canceled
   \<and> doRequest example_stdlib (example_cancelled 2) example_transport
        ''GET'' ''/layouts'' None (None :: string option) world0
      = Some (Some (PtrError \<lparr>Error.Code = ErrTimeout, Message = ''request cancelled'',
                               StatusCode = 0, Details = None,
                               Cause = Some context_Canceled\<rparr>),
              None,
              \<lparr>attempts = 2, requests = replicate 2 (example_request ''GET'' None),
               sleeps = [1000000000]\<rparr>)"
proof -
  let ?E = "example_cancelled 2"
  let ?w = "\<lparr>attempts = 2, requests = [], sleeps = []\<rparr>"
  have p1: "0 <s (2 :: 64 word)" "2 \<le>s maxRetries example_transport"
    by (simp_all add: example_transport_def newHTTPClient_def word_sless_alt word_sle_eq)
  have p2: "ctx_Done ?E (attempts ?w) = Some context_Canceled"
    "ctx_Done ?E 2 = Some context_Canceled"
    by (simp_all add: example_cancelled_def)
  have a: "(0 :: nat) < 2" "2 \<le> nat (sint (maxRetries example_transport))"
    by (simp_all add: example_bounds(3))
  have net: "\<forall>k<2. retryable (client_Do ?E (client example_transport) k
                         (example_request ''GET'' None))"
    by (simp add: example_cancelled_def)
  have ctx: "\<forall>k<2. 0 < k \<longrightarrow> ctx_Done ?E k = None"
    by (simp add: example_cancelled_def)
  have sl: "map (\<lambda>i. retryWait example_transport * word_of_nat i) [1..<2] = [1000000000]"
    by (simp add: example_transport_def newHTTPClient_def time_Second_def upt_rec)
  note t = cancelled_during_backoff [of 2 example_transport ?E ?w context_Canceled
      example_stdlib "''GET''" "''/layouts''" None "None :: string option" None
      "example_request ''GET'' None" 2]
  from t p1 p2(1) have r1: "doRequest_loop example_stdlib ?E example_transport
        ''GET'' ''/layouts'' None (None :: string option) 2 None ?w
      = Some (Some (PtrError \<lparr>Error.Code = ErrTimeout, Message = ''request cancelled'',
                               StatusCode = 0, Details = None,
                               Cause = Some context_Canceled\<rparr>), None, ?w)"
    by blast
  from t example_bounds(1,2) example_build [of "''GET''"] a net ctx p2(2)
  have r2: "doRequest example_stdlib ?E example_transport
        ''GET'' ''/layouts'' None (None :: string option) world0
      = Some (Some (PtrError \<lparr>Error.Code = ErrTimeout, Message = ''request cancelled'',
                               StatusCode = 0, Details = None,
                               Cause = Some context_Canceled\<rparr>),
              None,
              \<lparr>attempts = 2, requests = replicate 2 (example_request ''GET'' None),
               sleeps = map (\<lambda>i. retryWait example_transport * word_of_nat i) [1..<2]\<rparr>)"
    by blast
  have e: "retryable (client_Do ?E (client example_transport) 0 (example_request ''GET'' None))"
    "retryable (client_Do ?E (client example_transport) 1 (example_request ''GET'' None))"
    "ctx_Done ?E 1 = None"
    by (simp_all add: example_cancelled_def)
  show ?thesis
    using p1 p2 example_bounds(1,2) example_build [of "''GET''"] a e r1 r2 [unfolded sl]
    by (intro conjI) assumption+
qed

theorem empty_body_keeps_destination_witness:
  "(204 :: int) < 400
   \<and> handleResponse example_stdlib (Response 204 '''') (Some ''kept'') = (None, Some ''kept'')
   \<and> handleResponse example_stdlib (Response 204 ''ignored'') None = (None, None)
   \<and> 0 \<le> sint (maxRetries example_transport)
   \<and> sint (maxRetries example_transport) < 2 ^ 63 - 1
   \<and> buildRequest example_stdlib example_transport ''DELETE'' ''/layouts'' None
       = Inr (example_request ''DELETE'' None)
   \<and> (1 :: nat) \<le> nat (sint (maxRetries example_transport))
   \<and> retryable (client_Do example_recovering (client example_transport) 0
                  (example_request ''DELETE'' None))
   \<and> ctx_Done example_recovering 1 = None
   \<and> client_Do example_recovering (client example_transport) 1
        (example_request ''DELETE'' None) = Response 204 ''''
   \<and> doRequest example_stdlib example_recovering example_transport
        ''DELETE'' ''/layouts'' None (Some ''kept'') world0
      = Some (None, Some ''kept'',
              \<lparr>attempts = 2, requests = replicate 2 (example_request ''DELETE'' None),
               sleeps = [1000000000]\<rparr>)"
proof -
  let ?E = "example_recovering"
  have st: "(204 :: int) < 400" by simp
  have k: "(1 :: nat) \<le> nat (sint (maxRetries example_transport))"
    by (simp add: example_bounds(3))
  have e: "retryable (client_Do ?E (client example_transport) 0 (example_request ''DELETE'' None))"
    "ctx_Done ?E 1 = None"
    "client_Do ?E (client example_transport) 1 (example_request ''DELETE'' None)
       = Response 204 ''''"
    by (simp_all add: example_recovering_def)
  have net: "\<forall>j<1. retryable (client_Do ?E (client example_transport) j
                         (example_request ''DELETE'' None))"
    using e(1) by simp
  have ctx: "\<forall>j\<le>1. 0 < j \<longrightarrow> ctx_Done ?E j = None"
    by (simp add: example_recovering_def)
  have sl: "map (\<lambda>i. retryWait example_transport * word_of_nat i) [1..<2] = [1000000000]"
    by (simp add: example_transport_def newHTTPClient_def time_Second_def upt_rec)
  note t = empty_body_keeps_destination [of 204 example_stdlib "''kept''" "''ignored''"
      example_transport "''DELETE''" "''/layouts''" None "example_request ''DELETE'' None"
      1 ?E]
  from t st have r1: "handleResponse example_stdlib (Response 204 '''') (Some ''kept'')
      = (None, Some ''kept'')"
    and r2: "handleResponse example_stdlib (Response 204 ''ignored'') None = (None, None)"
    by blast+
  from t example_bounds(1,2) example_build [of "''DELETE''"] k net ctx e(3) st
  have r3: "doRequest example_stdlib ?E example_transport
        ''DELETE'' ''/layouts'' None (Some ''kept'') world0
      = Some (None, Some ''kept'',
              \<lparr>attempts = 1 + 1, requests = replicate (1 + 1) (example_request ''DELETE'' None),
               sleeps = map (\<lambda>i. retryWait example_transport * word_of_nat i) [1..<1 + 1]\<rparr>)"
    by blast
  have two: "(1 :: nat) + 1 = 2" by simp
  show ?thesis
    using st r1 r2 example_bounds(1,2) example_build [of "''DELETE''"] k e
      r3 [unfolded two sl]
    by (intro conjI) assumption+
qed

lemma client_error_not_retried:
  assumes lo: "0 \<le> sint (maxRetries c)" and hi: "sint (maxRetries c) < 2 ^ 63 - 1"
    and out: "attempt_outcome L E c method path body result 0 = (Some err, result')"
    and cl: "isClientError err"
  shows "doRequest L E c method path body result world0 =
           Some (Some err, result', after_attempts L c method path body 0 1 world0)"
proof -
  let ?n = "nat (sint (maxRetries c))"
  have M: "maxRetries c = word_of_nat ?n" and n: "?n < 2 ^ 63 - 1"
    using bounds_of_nat [OF lo hi] by blast+
  have out': "attempt_outcome L E c method path body result (length (requests world0))
                = (Some err, result')"
    using out by (simp add: world0_def)
  have fin: "case Some err of None \<Rightarrow> True | Some e \<Rightarrow> isClientError e" using cl by simp
  have "doRequest_loop L E c method path body result (word_of_nat 0) None world0 =
         Some (Some err, result', after_attempts L c method path body 0 1 world0)"
    by (rule loop_return_step [OF M n _ _ out' fin]) simp_all
  then show ?thesis by (simp add: doRequest_def)
qed

section \<open>Construction of the client: proofs\<close>

lemma newHTTPClient_retry:
  "maxRetries (newHTTPClient cl url) = 3" "retryWait (newHTTPClient cl url) = time_Second"
  "maxRetries (SetToken c t) = maxRetries c" "retryWait (SetToken c t) = retryWait c"
  "maxRetries (SetAdminToken c t) = maxRetries c" "retryWait (SetAdminToken c t) = retryWait c"
  by (simp_all add: newHTTPClient_def SetToken_def SetAdminToken_def)

lemma fold_WithRetry:
  "fold (\<lambda>opt cfg. opt cfg) (opts @ [WithRetry m d]) cfg0 =
     (fold (\<lambda>opt cfg. opt cfg) opts cfg0)\<lparr>MaxRetries := m, RetryWait := d\<rparr>"
  by (simp add: WithRetry_def)

text \<open>
  Claim C10. Every transport of a client made by \<^verbatim>\<open>New\<close>, whatever the options, has
  \<^verbatim>\<open>maxRetries\<close> 3 and \<^verbatim>\<open>retryWait\<close> one second: \<^verbatim>\<open>newHTTPClient\<close> sets them and
  \<^verbatim>\<open>New\<close> reads neither \<^verbatim>\<open>Config.MaxRetries\<close> nor \<^verbatim>\<open>Config.RetryWait\<close>, so that
  adding \<^verbatim>\<open>WithRetry\<close> to the options changes no transport.
\<close>

theorem transports_ignore_retry_config:
  "(\<exists>cl. New getenv opts = Inr cl
         \<and> (\<forall>t \<in> set (transports cl). maxRetries t = 3 \<and> retryWait t = time_Second))
   \<and> maxRetries (newHTTPClient h url) = 3 \<and> retryWait (newHTTPClient h url) = time_Second
   \<and> map_sum id transports (New getenv (opts @ [WithRetry m d]))
       = map_sum id transports (New getenv opts)"
proof (intro conjI)
  show "\<exists>cl. New getenv opts = Inr cl
         \<and> (\<forall>t \<in> set (transports cl). maxRetries t = 3 \<and> retryWait t = time_Second)"
    by (simp add: New_def validate_def Let_def transports_def newHTTPClient_retry)
  show "maxRetries (newHTTPClient h url) = 3" "retryWait (newHTTPClient h url) = time_Second"
    by (simp_all add: newHTTPClient_retry)
  show "map_sum id transports (New getenv (opts @ [WithRetry m d]))
       = map_sum id transports (New getenv opts)"
    unfolding New_def validate_def Let_def fold_WithRetry
    by (simp add: transports_def split: option.splits)
qed

theorem transports_ignore_retry_config_witness:
  "map_sum id (\<lambda>cl. (MaxRetries (config cl), RetryWait (config cl)))
      (New (\<lambda>v. '''') [WithRetry 10 (5 * time_Second)])
     = Inr (10, 5 * time_Second)
   \<and> map_sum id (\<lambda>cl. map (\<lambda>t. (maxRetries t, retryWait t)) (transports cl))
      (New (\<lambda>v. '''') [WithRetry 10 (5 * time_Second)])
     = Inr (replicate 9 (3, time_Second))"
proof -
  from transports_ignore_retry_config [of "\<lambda>v. ''''" "[WithRetry 10 (5 * time_Second)]"]
  obtain cl where n: "New (\<lambda>v. '''') [WithRetry 10 (5 * time_Second)] = Inr cl"
    and t: "\<forall>t \<in> set (transports cl). maxRetries t = 3 \<and> retryWait t = time_Second"
    by blast
  have c: "map_sum id (\<lambda>cl. (MaxRetries (config cl), RetryWait (config cl)))
      (New (\<lambda>v. '''') [WithRetry 10 (5 * time_Second)])
     = Inr (10, 5 * time_Second)"
    by (simp add: New_def validate_def Let_def WithRetry_def)
  have "map (\<lambda>t. (maxRetries t, retryWait t)) (transports cl) = replicate 9 (3, time_Second)"
    using t by (simp add: transports_def eval_nat_numeral)
  with n c show ?thesis by simp
qed

end
